theory Spec2Isabelle
  imports Complex_Main
begin

section \<open>Python values and arithmetic\<close>

text \<open>
  The correlations of \<^verbatim>\<open>ht/boiling_flow.py\<close> and \<^verbatim>\<open>ht/conv_two_phase.py\<close> are
  straight-line float formulas with a few branches.  A Python float is modelled by a
  real number: rounding, overflow, infinities and NaN are outside the model, and a
  float literal such as \<^verbatim>\<open>0.857\<close> is the rational it denotes.  Everything else the
  interpreter does is kept: an optional keyword argument is an \<open>option\<close>, its
  truthiness test is \<open>truthy\<close>, and every exception is a value of \<open>error\<close> on the left
  of a sum, raised at the place of the statement that raises it.
\<close>

datatype error =
    MissingBoundaryCondition
  | ZeroDivisionError
  | ValueError
  | TypeError

text \<open>
  \<open>MissingBoundaryCondition\<close> is \<^verbatim>\<open>Exception('Either q or Te is needed for this correlation')\<close>.
  \<open>ZeroDivisionError\<close> is a float division by zero or a zero raised to a negative power,
  \<open>ValueError\<close> a math domain error (\<^verbatim>\<open>log10\<close> of a non-positive number, a negative
  number raised to a fractional power under the Python 2 semantics the module header
  \<^verbatim>\<open>from __future__ import division\<close> is written for; Python 3 returns a complex
  number there, which is not a real result either), and \<open>TypeError\<close> is arithmetic on
  \<^verbatim>\<open>None\<close>.
\<close>

type_synonym 'a result = "error + 'a"

definition bindE :: "'a result \<Rightarrow> ('a \<Rightarrow> 'b result) \<Rightarrow> 'b result" where
  "bindE r f = (case r of Inl e \<Rightarrow> Inl e | Inr v \<Rightarrow> f v)"

definition truthy :: "real option \<Rightarrow> bool" where
  "truthy v = (case v of None \<Rightarrow> False | Some r \<Rightarrow> r \<noteq> 0)"

definition need :: "real option \<Rightarrow> real result" where
  "need v = (case v of None \<Rightarrow> Inl TypeError | Some r \<Rightarrow> Inr r)"

definition pdiv :: "real \<Rightarrow> real \<Rightarrow> real result" where
  "pdiv a b = (if b = 0 then Inl ZeroDivisionError else Inr (a / b))"

text \<open>\<open>ppow a b\<close> is \<^verbatim>\<open>a**b\<close> for a float exponent that is not a whole number.\<close>

definition ppow :: "real \<Rightarrow> real \<Rightarrow> real result" where
  "ppow a b =
     (if a < 0 then Inl ValueError
      else if a = 0 \<and> b < 0 then Inl ZeroDivisionError
      else Inr (a powr b))"

text \<open>\<open>pnegpow a n\<close> is \<^verbatim>\<open>a**-n\<close> for a literal whole number \<open>n\<close>.\<close>

definition pnegpow :: "real \<Rightarrow> nat \<Rightarrow> real result" where
  "pnegpow a n = (if a = 0 then Inl ZeroDivisionError else Inr (inverse (a ^ n)))"

definition plog10 :: "real \<Rightarrow> real result" where
  "plog10 a = (if a \<le> 0 then Inl ValueError else Inr (log 10 a))"


text \<open>
  Every quantity is a float; the names below only say which quantity an argument is.
\<close>

type_synonym mass_flow = real
type_synonym quality = real
type_synonym void_fraction = real
type_synonym diameter = real
type_synonym tube_length = real
type_synonym density = real
type_synonym viscosity = real
type_synonym conductivity = real
type_synonym heat_capacity = real
type_synonym latent_heat = real
type_synonym surface_tension = real
type_synonym pressure = real
type_synonym heat_flux = real
type_synonym temperature = real
type_synonym coefficient = real
type_synonym reynolds = real
type_synonym prandtl = real
type_synonym friction = real
type_synonym nusselt = real


section \<open>The dimensionless groups of the numerics toolkit\<close>

text \<open>
  Modelled from the spec: the helpers \<^verbatim>\<open>Boiling\<close>, \<^verbatim>\<open>Bond\<close>, \<^verbatim>\<open>Weber\<close>, \<^verbatim>\<open>Prandtl\<close>,
  \<^verbatim>\<open>Reynolds\<close> and \<^verbatim>\<open>nu_mu_converter\<close> are imported from the package \<^verbatim>\<open>fluids\<close> and are
  not part of the source tree.  The spec names them as the Boiling, Bond, Weber, Prandtl
  and Reynolds numbers and the kinematic/dynamic viscosity conversion; the formulas are
  the ones the docstrings of the callers spell out (\<open>Bg = q/(G Hvap)\<close> in the derivations
  of \<^verbatim>\<open>Lazarek_Black\<close> and \<^verbatim>\<open>Sun_Mishima\<close>, \<open>We = G\<^sup>2 D/(\<rho> \<sigma>)\<close> in \<^verbatim>\<open>Yun_Heo_Kim\<close>,
  \<open>Pr = Cp \<mu>/k\<close> in \<^verbatim>\<open>Davis_David\<close>, \<open>Re = \<rho> V D/\<mu>\<close> in \<^verbatim>\<open>Aggour\<close>) and, for the Bond
  number, the standard \<open>g (\<rho>\<^sub>l - \<rho>\<^sub>g) L\<^sup>2/\<sigma>\<close> with the standard gravity.  They are
  evaluated with the arithmetic above; what the helpers do on a zero or absent
  argument is not fixed by the source, and no theorem below depends on it.
\<close>

definition g :: real where
  "g = 9.80665"

definition Boiling ::
  "real \<Rightarrow> heat_flux \<Rightarrow> latent_heat \<Rightarrow> real result" where
  "Boiling G q Hvap = pdiv q (G * Hvap)"

definition Bond ::
  "density \<Rightarrow> density \<Rightarrow> surface_tension \<Rightarrow> diameter \<Rightarrow> real result" where
  "Bond rhol rhog sigma L = pdiv (g * (rhol - rhog) * L ^ 2) sigma"

definition Weber ::
  "real \<Rightarrow> diameter \<Rightarrow> density \<Rightarrow> surface_tension \<Rightarrow> real result" where
  "Weber V L rho sigma = pdiv (V ^ 2 * L * rho) sigma"

definition Prandtl ::
  "heat_capacity \<Rightarrow> conductivity \<Rightarrow> viscosity \<Rightarrow> prandtl result" where
  "Prandtl Cp k mu = pdiv (Cp * mu) k"

definition nu_mu_converter ::
  "density \<Rightarrow> viscosity \<Rightarrow> real result" where
  "nu_mu_converter rho mu = pdiv mu rho"

definition Reynolds ::
  "real \<Rightarrow> diameter \<Rightarrow> density \<Rightarrow> viscosity \<Rightarrow> reynolds result" where
  "Reynolds V D rho mu = bindE (pdiv mu rho) (\<lambda>nu. pdiv (V * D) nu)"


section \<open>Boiling correlations with an analytic inverse\<close>

text \<open>
  Each function first computes the mass flux and its dimensionless groups, then tests
  \<^verbatim>\<open>if q:\<close>, \<^verbatim>\<open>elif Te:\<close>, and raises otherwise.  The arguments are in the order of the
  Python signature; \<open>q\<close> and \<open>Te\<close> default to \<^verbatim>\<open>None\<close>.
\<close>

definition Lazarek_Black ::
  "mass_flow \<Rightarrow> diameter \<Rightarrow> viscosity \<Rightarrow> conductivity \<Rightarrow> latent_heat \<Rightarrow> heat_flux option
    \<Rightarrow> temperature option \<Rightarrow> coefficient result" where
  "Lazarek_Black m D mul kl Hvap q Te =
    bindE (pdiv m (pi / 4 * D ^ 2)) (\<lambda>G.
    bindE (pdiv (G * D) mul) (\<lambda>Relo.
    if truthy q then
      bindE (need q) (\<lambda>qv.
      bindE (Boiling G qv Hvap) (\<lambda>Bg.
      bindE (ppow Relo 0.857) (\<lambda>r.
      bindE (ppow Bg 0.714) (\<lambda>b.
      pdiv (30 * r * b * kl) D))))
    else if truthy Te then
      bindE (need Te) (\<lambda>Tev.
      bindE (ppow 30 (71 / 143)) (\<lambda>c.
      bindE (pdiv 1 (G * Hvap)) (\<lambda>gh.
      bindE (ppow gh (357 / 143)) (\<lambda>b.
      bindE (ppow Relo (857 / 286)) (\<lambda>r.
      bindE (ppow Tev (357 / 143)) (\<lambda>t.
      bindE (ppow kl (500 / 143)) (\<lambda>k.
      bindE (ppow D (500 / 143)) (\<lambda>d.
      pdiv (27000 * c * b * r * t * k) d))))))))
    else Inl MissingBoundaryCondition))"

definition Li_Wu ::
  "mass_flow \<Rightarrow> quality \<Rightarrow> diameter \<Rightarrow> density \<Rightarrow> density \<Rightarrow> viscosity
    \<Rightarrow> conductivity \<Rightarrow> latent_heat \<Rightarrow> surface_tension \<Rightarrow> heat_flux option \<Rightarrow> temperature option \<Rightarrow> coefficient result" where
  "Li_Wu m x D rhol rhog mul kl Hvap sigma q Te =
    bindE (pdiv m (pi / 4 * D ^ 2)) (\<lambda>G.
    bindE (pdiv (G * D * (1 - x)) mul) (\<lambda>Rel.
    bindE (Bond rhol rhog sigma D) (\<lambda>Bo.
    if truthy q then
      bindE (need q) (\<lambda>qv.
      bindE (Boiling G qv Hvap) (\<lambda>Bg.
      bindE (ppow Bg 0.3) (\<lambda>b.
      bindE (ppow Rel 0.36) (\<lambda>r.
      bindE (ppow (Bo * r) 0.4) (\<lambda>br.
      pdiv (334 * b * br * kl) D)))))
    else if truthy Te then
      bindE (need Te) (\<lambda>Tev.
      bindE (ppow Rel 0.36) (\<lambda>r.
      bindE (ppow (Bo * r) 0.4) (\<lambda>br.
      bindE (pdiv (334 * br * kl) D) (\<lambda>A.
      bindE (ppow A (10 / 7)) (\<lambda>a.
      bindE (ppow Tev (3 / 7)) (\<lambda>t.
      bindE (ppow G (3 / 7)) (\<lambda>gp.
      bindE (ppow Hvap (3 / 7)) (\<lambda>hp.
      pdiv (a * t) (gp * hp)))))))))
    else Inl MissingBoundaryCondition)))"

definition Sun_Mishima ::
  "mass_flow \<Rightarrow> diameter \<Rightarrow> density \<Rightarrow> density \<Rightarrow> viscosity \<Rightarrow> conductivity
    \<Rightarrow> latent_heat \<Rightarrow> surface_tension \<Rightarrow> heat_flux option \<Rightarrow> temperature option \<Rightarrow> coefficient result" where
  "Sun_Mishima m D rhol rhog mul kl Hvap sigma q Te =
    bindE (pdiv m (pi / 4 * D ^ 2)) (\<lambda>G.
    bindE (pdiv G rhol) (\<lambda>V.
    bindE (pdiv (G * D) mul) (\<lambda>Relo.
    bindE (Weber V D rhol sigma) (\<lambda>We.
    if truthy q then
      bindE (need q) (\<lambda>qv.
      bindE (Boiling G qv Hvap) (\<lambda>Bg.
      bindE (ppow Relo 1.05) (\<lambda>r.
      bindE (ppow Bg 0.54) (\<lambda>b.
      bindE (ppow We 0.191) (\<lambda>w.
      bindE (pdiv rhol rhog) (\<lambda>rr.
      bindE (ppow rr 0.142) (\<lambda>rp.
      bindE (pdiv (6 * r * b) (w * rp)) (\<lambda>n.
      pdiv (n * kl) D))))))))
    else if truthy Te then
      bindE (need Te) (\<lambda>Tev.
      bindE (ppow Relo 1.05) (\<lambda>r.
      bindE (ppow We 0.191) (\<lambda>w.
      bindE (pdiv rhol rhog) (\<lambda>rr.
      bindE (ppow rr 0.142) (\<lambda>rp.
      bindE (pdiv (6 * r) (w * rp)) (\<lambda>n.
      bindE (pdiv (n * kl) D) (\<lambda>A.
      bindE (ppow A (50 / 23)) (\<lambda>a.
      bindE (ppow Tev (27 / 23)) (\<lambda>t.
      bindE (ppow G (27 / 23)) (\<lambda>gp.
      bindE (ppow Hvap (27 / 23)) (\<lambda>hp.
      pdiv (a * t) (gp * hp))))))))))))
    else Inl MissingBoundaryCondition))))"

definition Yun_Heo_Kim ::
  "mass_flow \<Rightarrow> quality \<Rightarrow> diameter \<Rightarrow> density \<Rightarrow> viscosity \<Rightarrow> latent_heat
    \<Rightarrow> surface_tension \<Rightarrow> heat_flux option \<Rightarrow> temperature option \<Rightarrow> coefficient result" where
  "Yun_Heo_Kim m x D rhol mul Hvap sigma q Te =
    bindE (pdiv m (pi / 4 * D ^ 2)) (\<lambda>G.
    bindE (pdiv G rhol) (\<lambda>V.
    bindE (pdiv (G * D * (1 - x)) mul) (\<lambda>Rel.
    bindE (Weber V D rhol sigma) (\<lambda>We.
    if truthy q then
      bindE (need q) (\<lambda>qv.
      bindE (Boiling G qv Hvap) (\<lambda>Bg.
      bindE (ppow (Bg * We) 0.1993) (\<lambda>bw.
      bindE (ppow Rel (- 0.1626)) (\<lambda>r.
      Inr (136876 * bw * r)))))
    else if truthy Te then
      bindE (need Te) (\<lambda>Tev.
      bindE (ppow We 0.1993) (\<lambda>w.
      bindE (ppow Rel (- 0.1626)) (\<lambda>r.
      bindE (pdiv Tev G) (\<lambda>tg.
      bindE (pdiv tg Hvap) (\<lambda>tgh.
      bindE (ppow tgh 0.1993) (\<lambda>t.
      ppow (136876 * w * r * t) (10000 / 8007)))))))
    else Inl MissingBoundaryCondition))))"


section \<open>The three-zone film-boiling model \<^verbatim>\<open>Thome\<close>\<close>

text \<open>
  The body of \<^verbatim>\<open>Thome\<close> below its two guards is one straight-line computation.  It is
  cut here into the three groups of local variables the source computes one after the
  other, each group a record, so that the locals can be named in theorems:
  \<open>Thome_cycle\<close> is the source from \<^verbatim>\<open>C_delta0 = 0.3E-6\<close> to \<^verbatim>\<open>Ldry = t_dry*vp\<close>,
  \<open>Thome_Nusselt\<close> from \<^verbatim>\<open>Prg = ...\<close> to the \<^verbatim>\<open>Ldry == 0\<close> branch, and \<open>Thome_coeffs\<close>
  from \<^verbatim>\<open>h_Zg = ...\<close> to \<^verbatim>\<open>h = ...\<close>.  \<open>Thome_direct\<close> runs them in sequence and returns
  \<^verbatim>\<open>h\<close>.
\<close>

definition C_delta0 :: real where
  "C_delta0 = 3 / 10 ^ 7"

record thome_cycle =
  cyc_G :: real
  cyc_Rel :: real
  cyc_Reg :: real
  cyc_tau :: real
  cyc_vp :: real
  cyc_delta0 :: real
  cyc_tl :: real
  cyc_tv :: real
  cyc_t_dry_film :: real
  cyc_t_film :: real
  cyc_delta_end :: real
  cyc_t_dry :: real
  cyc_Ll :: real
  cyc_Ldry :: real

record thome_nusselt =
  Nu_lam_Zl :: real
  Nu_trans_Zl :: real
  Nu_lam_Zg :: real
  Nu_trans_Zg :: real

record thome_coeffs =
  h_Zg :: real
  h_Zl :: real
  h_film :: real
  h_ret :: real

definition Thome_cycle ::
  "mass_flow \<Rightarrow> quality \<Rightarrow> diameter \<Rightarrow> density \<Rightarrow> density \<Rightarrow> viscosity
    \<Rightarrow> viscosity \<Rightarrow> latent_heat \<Rightarrow> surface_tension \<Rightarrow> pressure \<Rightarrow> pressure \<Rightarrow> heat_flux option
    \<Rightarrow> thome_cycle result" where
  "Thome_cycle m x D rhol rhog mul mug Hvap sigma Psat Pc q =
    bindE (pdiv m (pi / 4 * D ^ 2)) (\<lambda>G.
    bindE (pdiv (G * D * (1 - x)) mul) (\<lambda>Rel.
    bindE (pdiv (G * D * x) mug) (\<lambda>Reg.
    bindE (pdiv Psat Pc) (\<lambda>pr.
    bindE (ppow pr (- 0.5)) (\<lambda>prp.
    let qref = 3328 * prp in
    bindE (need q) (\<lambda>qv.
    bindE (pdiv qv qref) (\<lambda>qq.
    bindE (ppow qq 1.74) (\<lambda>fopt.
    bindE (pdiv 1 fopt) (\<lambda>tau.
    bindE (pdiv x rhog) (\<lambda>xg.
    bindE (pdiv (1 - x) rhol) (\<lambda>xl.
    let vp = G * (xg + xl) in
    bindE (pdiv (rhol * D) sigma) (\<lambda>rds.
    let Bo = rds * vp ^ 2 in
    bindE (nu_mu_converter rhol mul) (\<lambda>nul.
    bindE (pdiv nul vp) (\<lambda>nv.
    bindE (pdiv nv D) (\<lambda>nvd.
    bindE (ppow nvd 0.5) (\<lambda>s.
    bindE (ppow (3 * s) 0.84) (\<lambda>y.
    bindE (ppow Bo 0.41) (\<lambda>b.
    bindE (pnegpow (0.07 * b) 8) (\<lambda>a.
    bindE (pnegpow 0.1 8) (\<lambda>t.
    bindE (ppow (a + t) (- 1 / 8)) (\<lambda>w.
    let delta0 = D * 0.29 * y * w in
    bindE (pdiv rhol rhog) (\<lambda>rlg.
    bindE (pdiv x (1 - x)) (\<lambda>xx.
    bindE (pdiv tau (1 + rlg * xx)) (\<lambda>tl.
    bindE (pdiv rhog rhol) (\<lambda>rgl.
    bindE (pdiv (1 - x) x) (\<lambda>xi.
    bindE (pdiv tau (1 + rgl * xi)) (\<lambda>tv.
    bindE (pdiv (rhol * Hvap) qv) (\<lambda>rhq.
    let t_dry_film = rhq * (delta0 - C_delta0) in
    bindE (if t_dry_film > tv then
             bindE (pdiv qv rhol) (\<lambda>qr.
             bindE (pdiv qr Hvap) (\<lambda>qrh.
             Inr (tv, delta0 - qrh * tv, 0)))
           else Inr (t_dry_film, C_delta0, tv - t_dry_film))
      (\<lambda>(t_film, delta_end, t_dry).
    bindE (pdiv (tau * G) rhol) (\<lambda>tg.
    let Ll = tg * (1 - x); Ldry = t_dry * vp in
    Inr \<lparr>cyc_G = G, cyc_Rel = Rel, cyc_Reg = Reg, cyc_tau = tau, cyc_vp = vp,
         cyc_delta0 = delta0, cyc_tl = tl, cyc_tv = tv, cyc_t_dry_film = t_dry_film,
         cyc_t_film = t_film, cyc_delta_end = delta_end, cyc_t_dry = t_dry,
         cyc_Ll = Ll, cyc_Ldry = Ldry\<rparr>))))))))))))))))))))))))))))))"

text \<open>
  \<^verbatim>\<open>turbulent_Gnielinski\<close> is imported from \<^verbatim>\<open>ht.conv_internal\<close>, which is not part of the
  source tree: it is the parameter \<open>gn\<close>, called with \<^verbatim>\<open>Re\<close>, \<^verbatim>\<open>Pr\<close> and \<^verbatim>\<open>fd\<close>.
\<close>

definition Thome_Nusselt ::
  "(reynolds \<Rightarrow> prandtl \<Rightarrow> friction \<Rightarrow> nusselt result) \<Rightarrow> diameter \<Rightarrow> viscosity \<Rightarrow> viscosity \<Rightarrow> conductivity \<Rightarrow> conductivity
    \<Rightarrow> heat_capacity \<Rightarrow> heat_capacity \<Rightarrow> thome_cycle \<Rightarrow> thome_nusselt result" where
  "Thome_Nusselt gn D mul mug kl kg Cpl Cpg c =
    bindE (Prandtl Cpg kg mug) (\<lambda>Prg.
    bindE (Prandtl Cpl kl mul) (\<lambda>Prl.
    bindE (plog10 (cyc_Reg c)) (\<lambda>lg.
    bindE (pnegpow (1.82 * lg - 1.64) 2) (\<lambda>fg.
    bindE (plog10 (cyc_Rel c)) (\<lambda>ll.
    bindE (pnegpow (1.82 * ll - 1.64) 2) (\<lambda>fl.
    bindE (ppow Prl (1 / 3)) (\<lambda>pl.
    bindE (pdiv (D * cyc_Rel c) (cyc_Ll c)) (\<lambda>dl.
    bindE (ppow dl 0.5) (\<lambda>sl.
    bindE (gn (cyc_Rel c) Prl fl) (\<lambda>gl.
    bindE (pdiv D (cyc_Ll c)) (\<lambda>el.
    bindE (ppow el (2 / 3)) (\<lambda>el3.
    if cyc_Ldry c = 0 then
      Inr \<lparr>Nu_lam_Zl = 2 * 0.455 * pl * sl, Nu_trans_Zl = gl * (1 + el3),
           Nu_lam_Zg = 0, Nu_trans_Zg = 0\<rparr>
    else
      bindE (ppow Prg (1 / 3)) (\<lambda>pg.
      bindE (pdiv (D * cyc_Reg c) (cyc_Ldry c)) (\<lambda>dg.
      bindE (ppow dg 0.5) (\<lambda>sg.
      bindE (gn (cyc_Reg c) Prg fg) (\<lambda>gg.
      bindE (pdiv D (cyc_Ldry c)) (\<lambda>eg.
      bindE (ppow eg (2 / 3)) (\<lambda>eg3.
      Inr \<lparr>Nu_lam_Zl = 2 * 0.455 * pl * sl, Nu_trans_Zl = gl * (1 + el3),
           Nu_lam_Zg = 2 * 0.455 * pg * sg, Nu_trans_Zg = gg * (1 + eg3)\<rparr>
      ))))))))))))))))))"

definition Thome_coeffs ::
  "diameter \<Rightarrow> conductivity \<Rightarrow> conductivity \<Rightarrow> thome_cycle \<Rightarrow> thome_nusselt \<Rightarrow> thome_coeffs result" where
  "Thome_coeffs D kl kg c n =
    bindE (pdiv kg D) (\<lambda>kgd.
    bindE (ppow (Nu_lam_Zg n ^ 4 + Nu_trans_Zg n ^ 4) 0.25) (\<lambda>ng.
    bindE (pdiv kl D) (\<lambda>kld.
    bindE (ppow (Nu_lam_Zl n ^ 4 + Nu_trans_Zl n ^ 4) 0.25) (\<lambda>nl.
    bindE (pdiv (2 * kl) (cyc_delta0 c + C_delta0)) (\<lambda>hf.
    bindE (pdiv (cyc_tl c) (cyc_tau c)) (\<lambda>wl.
    bindE (pdiv (cyc_t_film c) (cyc_tau c)) (\<lambda>wf.
    bindE (pdiv (cyc_t_dry c) (cyc_tau c)) (\<lambda>wd.
    Inr \<lparr>h_Zg = kgd * ng, h_Zl = kld * nl, h_film = hf,
         h_ret = wl * (kld * nl) + wf * hf + wd * (kgd * ng)\<rparr>))))))))"

definition Thome_direct ::
  "(reynolds \<Rightarrow> prandtl \<Rightarrow> friction \<Rightarrow> nusselt result) \<Rightarrow> mass_flow \<Rightarrow> quality \<Rightarrow> diameter \<Rightarrow> density \<Rightarrow> density
    \<Rightarrow> viscosity \<Rightarrow> viscosity \<Rightarrow> conductivity \<Rightarrow> conductivity \<Rightarrow> heat_capacity \<Rightarrow> heat_capacity
    \<Rightarrow> latent_heat \<Rightarrow> surface_tension \<Rightarrow> pressure \<Rightarrow> pressure \<Rightarrow> heat_flux option \<Rightarrow> coefficient result" where
  "Thome_direct gn m x D rhol rhog mul mug kl kg Cpl Cpg Hvap sigma Psat Pc q =
    bindE (Thome_cycle m x D rhol rhog mul mug Hvap sigma Psat Pc q) (\<lambda>c.
    bindE (Thome_Nusselt gn D mul mug kl kg Cpl Cpg c) (\<lambda>n.
    bindE (Thome_coeffs D kl kg c n) (\<lambda>k.
    Inr (h_ret k))))"

text \<open>
  The guards of \<^verbatim>\<open>Thome\<close>.  With \<^verbatim>\<open>q is None and Te\<close> the heat flux is found by
  \<^verbatim>\<open>scipy.optimize.fsolve\<close> from the start value \<^verbatim>\<open>1E4\<close>; the solver is the parameter
  \<open>fsolve\<close>, which takes the residual function and the start value and returns a heat
  flux or fails.  Both recursive calls of the source pass a \<^verbatim>\<open>q\<close> that is not \<^verbatim>\<open>None\<close> and
  no \<^verbatim>\<open>Te\<close>, so they fail both guards and run the body: they are \<open>Thome_direct\<close>.
\<close>

definition Thome ::
  "((heat_flux \<Rightarrow> temperature result) \<Rightarrow> heat_flux \<Rightarrow> heat_flux result) \<Rightarrow> (reynolds \<Rightarrow> prandtl \<Rightarrow> friction \<Rightarrow> nusselt result) \<Rightarrow> mass_flow \<Rightarrow> quality \<Rightarrow> diameter \<Rightarrow> density
    \<Rightarrow> density \<Rightarrow> viscosity \<Rightarrow> viscosity \<Rightarrow> conductivity \<Rightarrow> conductivity \<Rightarrow> heat_capacity
    \<Rightarrow> heat_capacity \<Rightarrow> latent_heat \<Rightarrow> surface_tension \<Rightarrow> pressure \<Rightarrow> pressure \<Rightarrow> heat_flux option
    \<Rightarrow> temperature option \<Rightarrow> coefficient result" where
  "Thome fsolve gn m x D rhol rhog mul mug kl kg Cpl Cpg Hvap sigma Psat Pc q Te =
    (if q = None \<and> truthy Te then
       bindE (need Te) (\<lambda>Tev.
       let to_solve = (\<lambda>q'.
             bindE (Thome_direct gn m x D rhol rhog mul mug kl kg Cpl Cpg Hvap sigma Psat Pc
                      (Some q')) (\<lambda>h.
             bindE (pdiv q' h) (\<lambda>r. Inr (r - Tev))))
       in
       bindE (fsolve to_solve 10000) (\<lambda>q'.
       Thome_direct gn m x D rhol rhog mul mug kl kg Cpl Cpg Hvap sigma Psat Pc (Some q')))
     else if q = None \<and> Te = None then Inl MissingBoundaryCondition
     else Thome_direct gn m x D rhol rhog mul mug kl kg Cpl Cpg Hvap sigma Psat Pc q)"


section \<open>Non-boiling two-phase correlations\<close>

text \<open>
  The nine functions of \<^verbatim>\<open>ht/conv_two_phase.py\<close>, arguments in the order of the Python
  signatures.  The wall viscosity \<^verbatim>\<open>mu_w\<close> defaults to \<^verbatim>\<open>None\<close> and is tested with
  \<^verbatim>\<open>if mu_w:\<close>.
\<close>

definition Davis_David ::
  "mass_flow \<Rightarrow> quality \<Rightarrow> diameter \<Rightarrow> density \<Rightarrow> density \<Rightarrow> heat_capacity
    \<Rightarrow> conductivity \<Rightarrow> viscosity \<Rightarrow> coefficient result" where
  "Davis_David m x D rhol rhog Cpl kl mul =
    bindE (pdiv m (pi / 4 * D ^ 2)) (\<lambda>G.
    bindE (Prandtl Cpl kl mul) (\<lambda>Prl.
    bindE (pdiv rhol rhog) (\<lambda>rr.
    bindE (ppow rr 0.28) (\<lambda>rp.
    bindE (pdiv (D * G * x) mul) (\<lambda>re.
    bindE (ppow re 0.87) (\<lambda>rep.
    bindE (ppow Prl 0.4) (\<lambda>pp.
    pdiv (0.060 * rp * rep * pp * kl) D)))))))"

definition Elamvaluthi_Srinivas ::
  "mass_flow \<Rightarrow> quality \<Rightarrow> diameter \<Rightarrow> density \<Rightarrow> density \<Rightarrow> heat_capacity
    \<Rightarrow> conductivity \<Rightarrow> viscosity \<Rightarrow> viscosity \<Rightarrow> viscosity option \<Rightarrow> coefficient result" where
  "Elamvaluthi_Srinivas m x D rhol rhog Cpl kl mug mu_b mu_w =
    bindE (pdiv (m * x) (rhog * pi / 4 * D ^ 2)) (\<lambda>Vg.
    bindE (pdiv (m * (1 - x)) (rhol * pi / 4 * D ^ 2)) (\<lambda>Vl.
    bindE (Prandtl Cpl kl mu_b) (\<lambda>Prl.
    bindE (pdiv (D * Vl * rhol) mu_b) (\<lambda>rl.
    bindE (pdiv (D * Vg * rhog) mug) (\<lambda>rg.
    let ReM = rl + rg in
    bindE (pdiv mug mu_b) (\<lambda>mr.
    bindE (ppow mr 0.25) (\<lambda>mp.
    bindE (ppow ReM 0.7) (\<lambda>rp.
    bindE (ppow Prl (1 / 3)) (\<lambda>pp.
    bindE (if truthy mu_w then
             bindE (need mu_w) (\<lambda>mw.
             bindE (pdiv mu_b mw) (\<lambda>vr.
             bindE (ppow vr 0.14) (\<lambda>vp.
             Inr (0.5 * mp * rp * pp * vp))))
           else Inr (0.5 * mp * rp * pp)) (\<lambda>Nu_TP.
    pdiv (Nu_TP * kl) D))))))))))"

definition Groothuis_Hendal ::
  "mass_flow \<Rightarrow> quality \<Rightarrow> diameter \<Rightarrow> density \<Rightarrow> density \<Rightarrow> heat_capacity
    \<Rightarrow> conductivity \<Rightarrow> viscosity \<Rightarrow> viscosity \<Rightarrow> viscosity option \<Rightarrow> bool \<Rightarrow> coefficient result" where
  "Groothuis_Hendal m x D rhol rhog Cpl kl mug mu_b mu_w water =
    bindE (pdiv (m * x) (rhog * pi / 4 * D ^ 2)) (\<lambda>Vg.
    bindE (pdiv (m * (1 - x)) (rhol * pi / 4 * D ^ 2)) (\<lambda>Vl.
    bindE (Prandtl Cpl kl mu_b) (\<lambda>Prl.
    bindE (pdiv (D * Vl * rhol) mu_b) (\<lambda>rl.
    bindE (pdiv (D * Vg * rhog) mug) (\<lambda>rg.
    let ReM = rl + rg in
    bindE (if water then
             bindE (ppow ReM 0.87) (\<lambda>rp.
             bindE (ppow Prl (1 / 3)) (\<lambda>pp.
             Inr (0.029 * rp * pp)))
           else
             bindE (ppow ReM 0.39) (\<lambda>rp.
             bindE (ppow Prl (1 / 3)) (\<lambda>pp.
             Inr (2.6 * rp * pp)))) (\<lambda>Nu0.
    bindE (if truthy mu_w then
             bindE (need mu_w) (\<lambda>mw.
             bindE (pdiv mu_b mw) (\<lambda>vr.
             bindE (ppow vr 0.14) (\<lambda>vp.
             Inr (Nu0 * vp))))
           else Inr Nu0) (\<lambda>Nu_TP.
    pdiv (Nu_TP * kl) D)))))))"

definition Hughmark ::
  "mass_flow \<Rightarrow> quality \<Rightarrow> void_fraction \<Rightarrow> diameter \<Rightarrow> tube_length \<Rightarrow> heat_capacity
    \<Rightarrow> conductivity \<Rightarrow> viscosity option \<Rightarrow> viscosity option \<Rightarrow> coefficient result" where
  "Hughmark m x alpha D L Cpl kl mu_b mu_w =
    (let ml = m * (1 - x); RL = 1 - alpha in
    bindE (ppow RL (- 0.5)) (\<lambda>rp.
    bindE (pdiv (ml * Cpl) RL) (\<lambda>a.
    bindE (pdiv a kl) (\<lambda>b.
    bindE (pdiv b L) (\<lambda>c.
    bindE (ppow c (1 / 3)) (\<lambda>cp.
    bindE (if truthy mu_b \<and> truthy mu_w then
             bindE (need mu_b) (\<lambda>mb.
             bindE (need mu_w) (\<lambda>mw.
             bindE (pdiv mb mw) (\<lambda>vr.
             bindE (ppow vr 0.14) (\<lambda>vp.
             Inr (1.75 * rp * cp * vp)))))
           else Inr (1.75 * rp * cp)) (\<lambda>Nu_TP.
    pdiv (Nu_TP * kl) D)))))))"

text \<open>
  \<^verbatim>\<open>laminar_entry_Seider_Tate\<close> is imported from \<^verbatim>\<open>ht.conv_internal\<close>, which is not part
  of the source tree: it is the parameter \<open>lest\<close> of \<open>Knott\<close>, called with \<^verbatim>\<open>Re\<close>, \<^verbatim>\<open>Pr\<close>,
  \<^verbatim>\<open>L\<close>, \<^verbatim>\<open>Di\<close>, \<^verbatim>\<open>mu\<close> and \<^verbatim>\<open>mu_w\<close>, the last four passed on as \<open>Knott\<close> received them.
  The helpers \<^verbatim>\<open>Reynolds\<close> and \<^verbatim>\<open>Prandtl\<close> fail on an absent argument; the model reports
  that as the arithmetic on \<^verbatim>\<open>None\<close> the spec describes.
\<close>

definition Knott ::
  "(reynolds \<Rightarrow> prandtl \<Rightarrow> tube_length option \<Rightarrow> diameter \<Rightarrow> viscosity option \<Rightarrow> viscosity option
      \<Rightarrow> nusselt result) \<Rightarrow> mass_flow \<Rightarrow> quality \<Rightarrow> diameter \<Rightarrow> density \<Rightarrow> density
    \<Rightarrow> heat_capacity option \<Rightarrow> conductivity option \<Rightarrow> viscosity option \<Rightarrow> viscosity option \<Rightarrow> tube_length option \<Rightarrow> coefficient option
    \<Rightarrow> coefficient result" where
  "Knott lest m x D rhol rhog Cpl kl mu_b mu_w L hl =
    bindE (pdiv (m * x) (rhog * pi / 4 * D ^ 2)) (\<lambda>Vgs.
    bindE (pdiv (m * (1 - x)) (rhol * pi / 4 * D ^ 2)) (\<lambda>Vls.
    bindE (if \<not> truthy hl then
             let V = Vgs + Vls in
             bindE (need mu_b) (\<lambda>mb.
             bindE (Reynolds V D rhol mb) (\<lambda>Re.
             bindE (need Cpl) (\<lambda>cp.
             bindE (need kl) (\<lambda>k.
             bindE (Prandtl cp k mb) (\<lambda>Pr.
             bindE (lest Re Pr L D mu_b mu_w) (\<lambda>Nul.
             pdiv (Nul * k) D))))))
           else need hl) (\<lambda>hlv.
    bindE (pdiv Vgs Vls) (\<lambda>vr.
    bindE (ppow (1 + vr) (1 / 3)) (\<lambda>vp.
    Inr (hlv * vp))))))"

definition Kudirka_Grosh_McFadden ::
  "mass_flow \<Rightarrow> quality \<Rightarrow> diameter \<Rightarrow> density \<Rightarrow> density \<Rightarrow> heat_capacity
    \<Rightarrow> conductivity \<Rightarrow> viscosity \<Rightarrow> viscosity \<Rightarrow> viscosity option \<Rightarrow> coefficient result" where
  "Kudirka_Grosh_McFadden m x D rhol rhog Cpl kl mug mu_b mu_w =
    bindE (pdiv (m * x) (rhog * pi / 4 * D ^ 2)) (\<lambda>Vgs.
    bindE (pdiv (m * (1 - x)) (rhol * pi / 4 * D ^ 2)) (\<lambda>Vls.
    bindE (Prandtl Cpl kl mu_b) (\<lambda>Prl.
    bindE (pdiv (D * Vls * rhol) mu_b) (\<lambda>Rels.
    bindE (pdiv Vgs Vls) (\<lambda>vr.
    bindE (ppow vr 0.125) (\<lambda>vrp.
    bindE (pdiv mug mu_b) (\<lambda>mr.
    bindE (ppow mr 0.6) (\<lambda>mp.
    bindE (ppow Rels 0.25) (\<lambda>rp.
    bindE (ppow Prl (1 / 3)) (\<lambda>pp.
    bindE (if truthy mu_w then
             bindE (need mu_w) (\<lambda>mw.
             bindE (pdiv mu_b mw) (\<lambda>wr.
             bindE (ppow wr 0.14) (\<lambda>wp.
             Inr (125 * vrp * mp * rp * pp * wp))))
           else Inr (125 * vrp * mp * rp * pp)) (\<lambda>Nu.
    pdiv (Nu * kl) D)))))))))))"

definition Martin_Sims ::
  "mass_flow \<Rightarrow> quality \<Rightarrow> diameter \<Rightarrow> density \<Rightarrow> density \<Rightarrow> coefficient
    \<Rightarrow> coefficient result" where
  "Martin_Sims m x D rhol rhog hl =
    bindE (pdiv (m * x) (rhog * pi / 4 * D ^ 2)) (\<lambda>Vgs.
    bindE (pdiv (m * (1 - x)) (rhol * pi / 4 * D ^ 2)) (\<lambda>Vls.
    bindE (pdiv Vgs Vls) (\<lambda>vr.
    bindE (ppow vr 0.5) (\<lambda>vp.
    Inr (hl * (1 + 0.64 * vp))))))"

definition Ravipudi_Godbold ::
  "mass_flow \<Rightarrow> quality \<Rightarrow> diameter \<Rightarrow> density \<Rightarrow> density \<Rightarrow> heat_capacity
    \<Rightarrow> conductivity \<Rightarrow> viscosity \<Rightarrow> viscosity \<Rightarrow> viscosity option \<Rightarrow> coefficient result" where
  "Ravipudi_Godbold m x D rhol rhog Cpl kl mug mu_b mu_w =
    bindE (pdiv (m * x) (rhog * pi / 4 * D ^ 2)) (\<lambda>Vgs.
    bindE (pdiv (m * (1 - x)) (rhol * pi / 4 * D ^ 2)) (\<lambda>Vls.
    bindE (Prandtl Cpl kl mu_b) (\<lambda>Prl.
    bindE (pdiv (D * Vls * rhol) mu_b) (\<lambda>Rels.
    bindE (pdiv Vgs Vls) (\<lambda>vr.
    bindE (ppow vr 0.3) (\<lambda>vrp.
    bindE (pdiv mug mu_b) (\<lambda>mr.
    bindE (ppow mr 0.2) (\<lambda>mp.
    bindE (ppow Rels 0.6) (\<lambda>rp.
    bindE (ppow Prl (1 / 3)) (\<lambda>pp.
    bindE (if truthy mu_w then
             bindE (need mu_w) (\<lambda>mw.
             bindE (pdiv mu_b mw) (\<lambda>wr.
             bindE (ppow wr 0.14) (\<lambda>wp.
             Inr (0.56 * vrp * mp * rp * pp * wp))))
           else Inr (0.56 * vrp * mp * rp * pp)) (\<lambda>Nu.
    pdiv (Nu * kl) D)))))))))))"

text \<open>
  \<open>Aggour\<close> tests \<^verbatim>\<open>turbulent or (Rel > 2000 and turbulent is None)\<close>; the flag is a
  \<open>bool option\<close>.  The tube length \<^verbatim>\<open>L\<close> defaults to \<^verbatim>\<open>None\<close> and is used by the laminar
  branch only.  \<open>Aggour_Rel\<close> is the prefix of the body up to \<^verbatim>\<open>Rel = Reynolds(...)\<close>,
  returning \<^verbatim>\<open>Prl\<close> and \<^verbatim>\<open>Rel\<close>.
\<close>

definition Aggour_Rel ::
  "mass_flow \<Rightarrow> quality \<Rightarrow> void_fraction \<Rightarrow> diameter \<Rightarrow> density \<Rightarrow> heat_capacity
    \<Rightarrow> conductivity \<Rightarrow> viscosity \<Rightarrow> (prandtl \<times> reynolds) result" where
  "Aggour_Rel m x alpha D rhol Cpl kl mu_b =
    bindE (pdiv (m * (1 - x)) (rhol * pi / 4 * D ^ 2)) (\<lambda>Vls.
    bindE (pdiv Vls (1 - alpha)) (\<lambda>Vl.
    bindE (Prandtl Cpl kl mu_b) (\<lambda>Prl.
    bindE (Reynolds Vl D rhol mu_b) (\<lambda>Rel.
    Inr (Prl, Rel)))))"

definition Aggour ::
  "mass_flow \<Rightarrow> quality \<Rightarrow> void_fraction \<Rightarrow> diameter \<Rightarrow> density \<Rightarrow> heat_capacity
    \<Rightarrow> conductivity \<Rightarrow> viscosity \<Rightarrow> viscosity option \<Rightarrow> tube_length option \<Rightarrow> bool option \<Rightarrow> coefficient result" where
  "Aggour m x alpha D rhol Cpl kl mu_b mu_w L turbulent =
    bindE (Aggour_Rel m x alpha D rhol Cpl kl mu_b) (\<lambda>(Prl, Rel).
    if turbulent = Some True \<or> (Rel > 2000 \<and> turbulent = None) then
      bindE (pdiv kl D) (\<lambda>kd.
      bindE (ppow Rel 0.83) (\<lambda>rp.
      bindE (ppow Prl 0.5) (\<lambda>pp.
      let hl = 0.0155 * kd * rp * pp in
      bindE (ppow (1 - alpha) (- 0.83)) (\<lambda>ap.
      Inr (hl * ap)))))
    else
      bindE (pdiv kl D) (\<lambda>kd.
      bindE (need L) (\<lambda>Lv.
      bindE (pdiv (Rel * Prl * D) Lv) (\<lambda>gz.
      bindE (ppow gz (1 / 3)) (\<lambda>gp.
      bindE (if truthy mu_w then
               bindE (need mu_w) (\<lambda>mw.
               bindE (pdiv mu_b mw) (\<lambda>wr.
               bindE (ppow wr 0.14) (\<lambda>wp.
               Inr (1.615 * kd * gp * wp))))
             else Inr (1.615 * kd * gp)) (\<lambda>hl.
      bindE (ppow (1 - alpha) (- 1 / 3)) (\<lambda>ap.
      Inr (hl * ap))))))))"

section \<open>Auxiliary notions for the theorems\<close>

text \<open>An optional argument is positive when it is supplied.\<close>

definition supplied_pos :: "real option \<Rightarrow> bool" where
  "supplied_pos v = (case v of None \<Rightarrow> True | Some r \<Rightarrow> 0 < r)"

text \<open>
  Modelled from the spec: \<^verbatim>\<open>turbulent_Gnielinski\<close> of \<^verbatim>\<open>ht.conv_internal\<close> is not part of
  the source tree.  The spec calls it a Gnielinski-type turbulent correlation; the
  docstring of \<^verbatim>\<open>Thome\<close> gives it as
  \<open>Nu = (f/8) (Re - 1000) Pr / (1 + 12.7 (f/8)\<^sup>1\<^sup>/\<^sup>2 (Pr\<^sup>2\<^sup>/\<^sup>3 - 1))\<close>.  The theorems about
  \<open>Thome\<close> hold for every function in its place; this one instantiates them at concrete
  inputs.
\<close>

definition turbulent_Gnielinski :: "reynolds \<Rightarrow> prandtl \<Rightarrow> friction \<Rightarrow> nusselt result" where
  "turbulent_Gnielinski Rey Pr fd =
    bindE (ppow (fd / 8) 0.5) (\<lambda>s.
    bindE (ppow Pr (2 / 3)) (\<lambda>p.
    pdiv (fd / 8 * (Rey - 1000) * Pr) (1 + 12.7 * s * (p - 1))))"

text \<open>
  The closed forms of the cycle quantities, as the docstring of \<^verbatim>\<open>Thome\<close> writes them:
  the mass flux \<open>G\<close>, the pair period \<open>\<tau> = 1/f\<close> with \<open>f = (q/q\<^sub>r\<^sub>e\<^sub>f)\<^sup>1\<^sup>.\<^sup>7\<^sup>4\<close> and
  \<open>q\<^sub>r\<^sub>e\<^sub>f = 3328 (Psat/Pc)\<^sup>-\<^sup>0\<^sup>.\<^sup>5\<close>, the pair velocity \<open>v\<^sub>p\<close>, the initial film thickness
  \<open>\<delta>\<^sub>0\<close>, the residence times \<open>t\<^sub>l\<close> and \<open>t\<^sub>v\<close> of the liquid slug and of the vapour, and
  the time \<open>t\<^sub>d\<^sub>r\<^sub>y\<^sub>,\<^sub>f\<^sub>i\<^sub>l\<^sub>m\<close> the film takes to thin to \<open>\<delta>\<^sub>m\<^sub>i\<^sub>n\<close>.  They are what
  \<open>Thome_cycle\<close> computes when every division and power is defined.
\<close>

definition mass_flux :: "mass_flow \<Rightarrow> diameter \<Rightarrow> real" where
  "mass_flux m D = m / (pi / 4 * D ^ 2)"

definition pair_period :: "pressure \<Rightarrow> pressure \<Rightarrow> heat_flux \<Rightarrow> real" where
  "pair_period Psat Pc q = 1 / (q / (3328 * (Psat / Pc) powr (- 0.5))) powr 1.74"

definition pair_velocity :: "mass_flow \<Rightarrow> quality \<Rightarrow> diameter \<Rightarrow> density \<Rightarrow> density \<Rightarrow> real" where
  "pair_velocity m x D rhol rhog = mass_flux m D * (x / rhog + (1 - x) / rhol)"

definition initial_film ::
  "mass_flow \<Rightarrow> quality \<Rightarrow> diameter \<Rightarrow> density \<Rightarrow> density \<Rightarrow> viscosity \<Rightarrow> surface_tension
    \<Rightarrow> real" where
  "initial_film m x D rhol rhog mul sigma =
    D * 0.29 * (3 * (mul / rhol / pair_velocity m x D rhol rhog / D) powr 0.5) powr 0.84
      * (inverse ((0.07 * (rhol * D / sigma * pair_velocity m x D rhol rhog ^ 2) powr 0.41) ^ 8)
          + inverse (0.1 ^ 8)) powr (- 1 / 8)"

definition liquid_time :: "pressure \<Rightarrow> pressure \<Rightarrow> heat_flux \<Rightarrow> quality \<Rightarrow> density \<Rightarrow> density \<Rightarrow> real"
  where
  "liquid_time Psat Pc q x rhol rhog = pair_period Psat Pc q / (1 + rhol / rhog * (x / (1 - x)))"

definition vapor_time :: "pressure \<Rightarrow> pressure \<Rightarrow> heat_flux \<Rightarrow> quality \<Rightarrow> density \<Rightarrow> density \<Rightarrow> real"
  where
  "vapor_time Psat Pc q x rhol rhog = pair_period Psat Pc q / (1 + rhog / rhol * ((1 - x) / x))"

definition film_drying_time ::
  "mass_flow \<Rightarrow> quality \<Rightarrow> diameter \<Rightarrow> density \<Rightarrow> density \<Rightarrow> viscosity \<Rightarrow> latent_heat
    \<Rightarrow> surface_tension \<Rightarrow> heat_flux \<Rightarrow> real" where
  "film_drying_time m x D rhol rhog mul Hvap sigma q =
    rhol * Hvap / q * (initial_film m x D rhol rhog mul sigma - C_delta0)"


section \<open>Evaluation rules for the arithmetic\<close>

lemma bindE_Inr [simp]: "bindE (Inr v) f = f v"
  by (simp add: bindE_def)

lemma bindE_Inl [simp]: "bindE (Inl e) f = Inl e"
  by (simp add: bindE_def)

lemma truthy_simps [simp]:
  "truthy None = False" "truthy (Some r) = (r \<noteq> 0)"
  by (simp_all add: truthy_def)

lemma need_simps [simp]:
  "need None = Inl TypeError" "need (Some r) = Inr r"
  by (simp_all add: need_def)

lemma pdiv_nonzero [simp]: "b \<noteq> 0 \<Longrightarrow> pdiv a b = Inr (a / b)"
  by (simp add: pdiv_def)

lemma pdiv_zero [simp]: "pdiv a 0 = Inl ZeroDivisionError"
  by (simp add: pdiv_def)

lemma ppow_pos [simp]: "0 < a \<Longrightarrow> ppow a b = Inr (a powr b)"
  by (simp add: ppow_def)

lemma ppow_zero_pos [simp]: "0 \<le> b \<Longrightarrow> ppow 0 b = Inr 0"
  by (simp add: ppow_def)

lemma pnegpow_nonzero [simp]: "a \<noteq> 0 \<Longrightarrow> pnegpow a n = Inr (inverse (a ^ n))"
  by (simp add: pnegpow_def)

lemma plog10_pos [simp]: "0 < a \<Longrightarrow> plog10 a = Inr (log 10 a)"
  by (simp add: plog10_def)


section \<open>The boundary-condition guards\<close>

text \<open>
  Claim C5.  A call that supplies neither \<^verbatim>\<open>q\<close> nor \<^verbatim>\<open>Te\<close> raises
  \<^verbatim>\<open>Exception('Either q or Te is needed for this correlation')\<close> and returns nothing, for
  each of \<^verbatim>\<open>Lazarek_Black\<close>, \<^verbatim>\<open>Li_Wu\<close>, \<^verbatim>\<open>Sun_Mishima\<close>, \<^verbatim>\<open>Yun_Heo_Kim\<close> and \<^verbatim>\<open>Thome\<close>.
  \<^verbatim>\<open>Thome\<close> tests its guards first, and raises it whatever the other arguments are.  The
  other four compute the mass flux, the Reynolds number and the Bond or Weber number
  before the test, so the remaining arguments have to let that arithmetic through: the
  diameter, the liquid viscosity, the liquid density and the surface tension are not
  zero, as the data model of the spec requires of every call.
\<close>

theorem missing_boundary_condition_raises:
  "Thome fsolve gn m x D rhol rhog mul mug kl kg Cpl Cpg Hvap sigma Psat Pc None None
      = Inl MissingBoundaryCondition
   \<and> (D \<noteq> 0 \<and> mul \<noteq> 0 \<and> rhol \<noteq> 0 \<and> sigma \<noteq> 0 \<longrightarrow>
        Lazarek_Black m D mul kl Hvap None None = Inl MissingBoundaryCondition
      \<and> Li_Wu m x D rhol rhog mul kl Hvap sigma None None = Inl MissingBoundaryCondition
      \<and> Sun_Mishima m D rhol rhog mul kl Hvap sigma None None = Inl MissingBoundaryCondition
      \<and> Yun_Heo_Kim m x D rhol mul Hvap sigma None None = Inl MissingBoundaryCondition)"
  by (simp add: Lazarek_Black_def Li_Wu_def Sun_Mishima_def Yun_Heo_Kim_def Thome_def
      Bond_def Weber_def)

theorem missing_boundary_condition_raises_witness:
  "Lazarek_Black 1 0.3 (156 / 10 ^ 6) 0.086 900000 None None = Inl MissingBoundaryCondition
   \<and> Li_Wu 1 0.4 0.3 567 18.09 (156 / 10 ^ 6) 0.086 900000 0.02 None None
       = Inl MissingBoundaryCondition
   \<and> Sun_Mishima 1 0.3 567 18.09 (156 / 10 ^ 6) 0.086 900000 0.02 None None
       = Inl MissingBoundaryCondition
   \<and> Yun_Heo_Kim 1 0.4 0.3 567 (156 / 10 ^ 6) 900000 0.02 None None
       = Inl MissingBoundaryCondition
   \<and> Thome (\<lambda>f q0. Inr q0) (\<lambda>Re Pr fd. Inr 0) 1 0.4 0.3 567 18.09 (156 / 10 ^ 6) (1 / 10 ^ 5)
       0.086 0.2 2300 1400 900000 0.02 100000 22000000 None None
       = Inl MissingBoundaryCondition"
  using missing_boundary_condition_raises[where fsolve = "\<lambda>f q0. Inr q0"
      and gn = "\<lambda>Re Pr fd. Inr 0" and m = 1 and x = "0.4" and D = "0.3" and rhol = 567
      and rhog = "18.09" and mul = "156 / 10 ^ 6" and mug = "1 / 10 ^ 5" and kl = "0.086"
      and kg = "0.2" and Cpl = 2300 and Cpg = 1400 and Hvap = 900000 and sigma = "0.02"
      and Psat = 100000 and Pc = 22000000]
  by simp

text \<open>
  Claim C6, as amended.  When both \<^verbatim>\<open>q\<close> and \<^verbatim>\<open>Te\<close> are supplied and \<^verbatim>\<open>q\<close> is not zero,
  the heat-flux branch is taken: the result is the result of the call with \<^verbatim>\<open>q\<close> alone,
  whatever \<^verbatim>\<open>Te\<close> is.  \<^verbatim>\<open>Thome\<close> tests \<^verbatim>\<open>q is None\<close> and does so for a zero \<^verbatim>\<open>q\<close> as
  well.  The four correlations that test \<^verbatim>\<open>if q:\<close> take a zero \<^verbatim>\<open>q\<close> for an absent one,
  and then \<^verbatim>\<open>Te\<close> decides the result.
\<close>

theorem heat_flux_takes_precedence:
  "(qv \<noteq> 0 \<longrightarrow>
      Lazarek_Black m D mul kl Hvap (Some qv) (Some Tev)
        = Lazarek_Black m D mul kl Hvap (Some qv) None
    \<and> Li_Wu m x D rhol rhog mul kl Hvap sigma (Some qv) (Some Tev)
        = Li_Wu m x D rhol rhog mul kl Hvap sigma (Some qv) None
    \<and> Sun_Mishima m D rhol rhog mul kl Hvap sigma (Some qv) (Some Tev)
        = Sun_Mishima m D rhol rhog mul kl Hvap sigma (Some qv) None
    \<and> Yun_Heo_Kim m x D rhol mul Hvap sigma (Some qv) (Some Tev)
        = Yun_Heo_Kim m x D rhol mul Hvap sigma (Some qv) None)
   \<and> Thome fsolve gn m x D rhol rhog mul mug kl kg Cpl Cpg Hvap sigma Psat Pc
         (Some qv) (Some Tev)
       = Thome fsolve gn m x D rhol rhog mul mug kl kg Cpl Cpg Hvap sigma Psat Pc
         (Some qv) None"
  by (simp add: Lazarek_Black_def Li_Wu_def Sun_Mishima_def Yun_Heo_Kim_def Thome_def)

theorem heat_flux_takes_precedence_witness:
  "Lazarek_Black 1 0.3 (156 / 10 ^ 6) 0.086 900000 (Some 100000) (Some 10)
        = Lazarek_Black 1 0.3 (156 / 10 ^ 6) 0.086 900000 (Some 100000) None
   \<and> Li_Wu 1 0.4 0.3 567 18.09 (156 / 10 ^ 6) 0.086 900000 0.02 (Some 100000) (Some 10)
        = Li_Wu 1 0.4 0.3 567 18.09 (156 / 10 ^ 6) 0.086 900000 0.02 (Some 100000) None
   \<and> Sun_Mishima 1 0.3 567 18.09 (156 / 10 ^ 6) 0.086 900000 0.02 (Some 100000) (Some 10)
        = Sun_Mishima 1 0.3 567 18.09 (156 / 10 ^ 6) 0.086 900000 0.02 (Some 100000) None
   \<and> Yun_Heo_Kim 1 0.4 0.3 567 (156 / 10 ^ 6) 900000 0.02 (Some 100000) (Some 10)
        = Yun_Heo_Kim 1 0.4 0.3 567 (156 / 10 ^ 6) 900000 0.02 (Some 100000) None
   \<and> Thome (\<lambda>f q0. Inr q0) (\<lambda>Re Pr fd. Inr 0) 1 0.4 0.3 567 18.09 (156 / 10 ^ 6) (1 / 10 ^ 5)
        0.086 0.2 2300 1400 900000 0.02 100000 22000000 (Some 100000) (Some 10)
      = Thome (\<lambda>f q0. Inr q0) (\<lambda>Re Pr fd. Inr 0) 1 0.4 0.3 567 18.09 (156 / 10 ^ 6) (1 / 10 ^ 5)
        0.086 0.2 2300 1400 900000 0.02 100000 22000000 (Some 100000) None"
  using heat_flux_takes_precedence[of 100000 1 "0.3" "156 / 10 ^ 6" "0.086" 900000 10 "0.4" 567
      "18.09" "0.02" "\<lambda>f q0. Inr q0" "\<lambda>Re Pr fd. Inr 0" "1 / 10 ^ 5" "0.2" 2300 1400 100000
      22000000]
  by simp

theorem zero_heat_flux_yields_to_Te_counterexample:
  "Lazarek_Black 10 0.3 (1 / 1000) 0.6 2000000 (Some 0) (Some 100)
     \<noteq> Lazarek_Black 10 0.3 (1 / 1000) 0.6 2000000 (Some 0) None"
  by (simp add: Lazarek_Black_def)

lemma Thome_cycle_no_q:
  "Thome_cycle m x D rhol rhog mul mug Hvap sigma Psat Pc None = Inl e
     \<Longrightarrow> e \<noteq> MissingBoundaryCondition"
  "Thome_cycle m x D rhol rhog mul mug Hvap sigma Psat Pc None \<noteq> Inr c"
  by (auto simp add: Thome_cycle_def bindE_def pdiv_def ppow_def split: sum.splits if_splits)

lemma Thome_direct_no_q:
  "Thome_direct gn m x D rhol rhog mul mug kl kg Cpl Cpg Hvap sigma Psat Pc None
     \<noteq> Inl MissingBoundaryCondition"
  "isl (Thome_direct gn m x D rhol rhog mul mug kl kg Cpl Cpg Hvap sigma Psat Pc None)"
  using Thome_cycle_no_q[of m x D rhol rhog mul mug Hvap sigma Psat Pc]
  by (auto simp add: Thome_direct_def bindE_def split: sum.splits)

lemma Thome_cycle_no_q_TypeError:
  "D \<noteq> 0 \<Longrightarrow> mul \<noteq> 0 \<Longrightarrow> mug \<noteq> 0 \<Longrightarrow> Pc \<noteq> 0 \<Longrightarrow> 0 < Psat / Pc \<Longrightarrow>
   Thome_cycle m x D rhol rhog mul mug Hvap sigma Psat Pc None = Inl TypeError"
  by (simp add: Thome_cycle_def)

text \<open>
  Claim C10.  \<^verbatim>\<open>Thome\<close> called without \<^verbatim>\<open>q\<close> and with \<^verbatim>\<open>Te = 0\<close> fails both guards
  (\<^verbatim>\<open>Te\<close> is falsy, and \<^verbatim>\<open>Te is None\<close> is false) and runs the heat-flux body with \<^verbatim>\<open>q\<close>
  absent.  Whatever the other arguments are, the call neither raises the designated
  error nor returns a coefficient; when the arithmetic before \<^verbatim>\<open>q/qref\<close> goes through
  it fails there with the \<^verbatim>\<open>TypeError\<close> of a division of \<^verbatim>\<open>None\<close>.  The other four
  correlations raise the designated error on the same call.
\<close>

theorem Thome_zero_Te_without_q:
  "Thome fsolve gn m x D rhol rhog mul mug kl kg Cpl Cpg Hvap sigma Psat Pc None (Some 0)
      \<noteq> Inl MissingBoundaryCondition
   \<and> isl (Thome fsolve gn m x D rhol rhog mul mug kl kg Cpl Cpg Hvap sigma Psat Pc None (Some 0))
   \<and> (D \<noteq> 0 \<and> mul \<noteq> 0 \<and> mug \<noteq> 0 \<and> Pc \<noteq> 0 \<and> 0 < Psat / Pc \<longrightarrow>
        Thome fsolve gn m x D rhol rhog mul mug kl kg Cpl Cpg Hvap sigma Psat Pc None (Some 0)
          = Inl TypeError)
   \<and> (D \<noteq> 0 \<and> mul \<noteq> 0 \<and> rhol \<noteq> 0 \<and> sigma \<noteq> 0 \<longrightarrow>
        Lazarek_Black m D mul kl Hvap None (Some 0) = Inl MissingBoundaryCondition
      \<and> Li_Wu m x D rhol rhog mul kl Hvap sigma None (Some 0) = Inl MissingBoundaryCondition
      \<and> Sun_Mishima m D rhol rhog mul kl Hvap sigma None (Some 0) = Inl MissingBoundaryCondition
      \<and> Yun_Heo_Kim m x D rhol mul Hvap sigma None (Some 0) = Inl MissingBoundaryCondition)"
proof -
  have T: "Thome fsolve gn m x D rhol rhog mul mug kl kg Cpl Cpg Hvap sigma Psat Pc None (Some 0)
      = Thome_direct gn m x D rhol rhog mul mug kl kg Cpl Cpg Hvap sigma Psat Pc None"
    by (simp add: Thome_def)
  have four: "D \<noteq> 0 \<and> mul \<noteq> 0 \<and> rhol \<noteq> 0 \<and> sigma \<noteq> 0 \<longrightarrow>
        Lazarek_Black m D mul kl Hvap None (Some 0) = Inl MissingBoundaryCondition
      \<and> Li_Wu m x D rhol rhog mul kl Hvap sigma None (Some 0) = Inl MissingBoundaryCondition
      \<and> Sun_Mishima m D rhol rhog mul kl Hvap sigma None (Some 0) = Inl MissingBoundaryCondition
      \<and> Yun_Heo_Kim m x D rhol mul Hvap sigma None (Some 0) = Inl MissingBoundaryCondition"
    by (simp add: Lazarek_Black_def Li_Wu_def Sun_Mishima_def Yun_Heo_Kim_def Bond_def Weber_def)
  have te: "D \<noteq> 0 \<and> mul \<noteq> 0 \<and> mug \<noteq> 0 \<and> Pc \<noteq> 0 \<and> 0 < Psat / Pc \<longrightarrow>
        Thome_direct gn m x D rhol rhog mul mug kl kg Cpl Cpg Hvap sigma Psat Pc None
          = Inl TypeError"
    by (simp add: Thome_direct_def Thome_cycle_no_q_TypeError)
  show ?thesis
    unfolding T
    using Thome_direct_no_q[of gn m x D rhol rhog mul mug kl kg Cpl Cpg Hvap sigma Psat Pc] four te
    by blast
qed

theorem Thome_zero_Te_without_q_witness:
  "Thome (\<lambda>f q0. Inr q0) (\<lambda>Re Pr fd. Inr 0) 1 0.4 0.3 567 18.09 (156 / 10 ^ 6) (1 / 10 ^ 5)
      0.086 0.2 2300 1400 900000 0.02 100000 22000000 None (Some 0) = Inl TypeError
   \<and> Lazarek_Black 1 0.3 (156 / 10 ^ 6) 0.086 900000 None (Some 0)
       = Inl MissingBoundaryCondition
   \<and> Li_Wu 1 0.4 0.3 567 18.09 (156 / 10 ^ 6) 0.086 900000 0.02 None (Some 0)
       = Inl MissingBoundaryCondition
   \<and> Sun_Mishima 1 0.3 567 18.09 (156 / 10 ^ 6) 0.086 900000 0.02 None (Some 0)
       = Inl MissingBoundaryCondition
   \<and> Yun_Heo_Kim 1 0.4 0.3 567 (156 / 10 ^ 6) 900000 0.02 None (Some 0)
       = Inl MissingBoundaryCondition"
  using Thome_zero_Te_without_q[of "\<lambda>f q0. Inr q0" "\<lambda>Re Pr fd. Inr 0" 1 "0.4" "0.3" 567 "18.09"
      "156 / 10 ^ 6" "1 / 10 ^ 5" "0.086" "0.2" 2300 1400 900000 "0.02" 100000 22000000]
  by simp

section \<open>Zero-valued optional arguments\<close>

text \<open>
  Claim C7, as amended.  The truthiness tests \<^verbatim>\<open>if q:\<close> and \<^verbatim>\<open>if mu_w:\<close> treat a supplied
  zero as an argument that was not supplied.  For \<^verbatim>\<open>Lazarek_Black\<close>, \<^verbatim>\<open>Li_Wu\<close>,
  \<^verbatim>\<open>Sun_Mishima\<close> and \<^verbatim>\<open>Yun_Heo_Kim\<close> a call with \<^verbatim>\<open>q = 0\<close> is the call without \<^verbatim>\<open>q\<close>, so
  with an excess temperature it takes the excess-temperature branch.  For
  \<^verbatim>\<open>Elamvaluthi_Srinivas\<close>, \<^verbatim>\<open>Groothuis_Hendal\<close>, \<^verbatim>\<open>Hughmark\<close>, \<^verbatim>\<open>Kudirka_Grosh_McFadden\<close>,
  \<^verbatim>\<open>Ravipudi_Godbold\<close> and \<^verbatim>\<open>Aggour\<close> a call with \<^verbatim>\<open>mu_w = 0\<close> is the call without \<^verbatim>\<open>mu_w\<close>,
  which applies no viscosity correction.  \<^verbatim>\<open>Knott\<close> applies no correction of its own and
  hands \<^verbatim>\<open>mu_w\<close> to \<^verbatim>\<open>laminar_entry_Seider_Tate\<close>: the same holds of it when that helper
  treats a zero so.  \<^verbatim>\<open>Thome\<close> is not among them: it tests \<^verbatim>\<open>q is None\<close>.
\<close>

theorem zero_optional_is_absent:
  "Lazarek_Black m D mul kl Hvap (Some 0) Te = Lazarek_Black m D mul kl Hvap None Te
   \<and> Li_Wu m x D rhol rhog mul kl Hvap sigma (Some 0) Te
       = Li_Wu m x D rhol rhog mul kl Hvap sigma None Te
   \<and> Sun_Mishima m D rhol rhog mul kl Hvap sigma (Some 0) Te
       = Sun_Mishima m D rhol rhog mul kl Hvap sigma None Te
   \<and> Yun_Heo_Kim m x D rhol mul Hvap sigma (Some 0) Te
       = Yun_Heo_Kim m x D rhol mul Hvap sigma None Te
   \<and> Elamvaluthi_Srinivas m x D rhol rhog Cpl kl mug mu_b (Some 0)
       = Elamvaluthi_Srinivas m x D rhol rhog Cpl kl mug mu_b None
   \<and> Groothuis_Hendal m x D rhol rhog Cpl kl mug mu_b (Some 0) water
       = Groothuis_Hendal m x D rhol rhog Cpl kl mug mu_b None water
   \<and> Hughmark m x alpha D L Cpl kl mu_bo (Some 0) = Hughmark m x alpha D L Cpl kl mu_bo None
   \<and> Kudirka_Grosh_McFadden m x D rhol rhog Cpl kl mug mu_b (Some 0)
       = Kudirka_Grosh_McFadden m x D rhol rhog Cpl kl mug mu_b None
   \<and> Ravipudi_Godbold m x D rhol rhog Cpl kl mug mu_b (Some 0)
       = Ravipudi_Godbold m x D rhol rhog Cpl kl mug mu_b None
   \<and> Aggour m x alpha D rhol Cpl kl mu_b (Some 0) Lo turbulent
       = Aggour m x alpha D rhol Cpl kl mu_b None Lo turbulent
   \<and> ((\<forall>Re Pr. lest Re Pr Lo D mu_bo (Some 0) = lest Re Pr Lo D mu_bo None) \<longrightarrow>
        Knott lest m x D rhol rhog Cplo klo mu_bo (Some 0) Lo hlo
          = Knott lest m x D rhol rhog Cplo klo mu_bo None Lo hlo)"
proof -
  have K: "Knott lest m x D rhol rhog Cplo klo mu_bo (Some 0) Lo hlo
          = Knott lest m x D rhol rhog Cplo klo mu_bo None Lo hlo"
    if "\<forall>Re Pr. lest Re Pr Lo D mu_bo (Some 0) = lest Re Pr Lo D mu_bo None"
    using that by (cases "truthy hlo") (simp_all add: Knott_def Let_def)
  show ?thesis
    using K
    by (simp add: Lazarek_Black_def Li_Wu_def Sun_Mishima_def Yun_Heo_Kim_def
      Elamvaluthi_Srinivas_def Groothuis_Hendal_def Hughmark_def Kudirka_Grosh_McFadden_def
      Ravipudi_Godbold_def Aggour_def cong: if_cong)
qed

theorem zero_optional_is_absent_witness:
  "Lazarek_Black 10 0.3 (1 / 1000) 0.6 2000000 (Some 0) (Some 100)
       = Lazarek_Black 10 0.3 (1 / 1000) 0.6 2000000 None (Some 100)
   \<and> Elamvaluthi_Srinivas 1 0.9 0.3 1000 2.5 2300 0.6 (1 / 10 ^ 5) (1 / 1000) (Some 0)
       = Elamvaluthi_Srinivas 1 0.9 0.3 1000 2.5 2300 0.6 (1 / 10 ^ 5) (1 / 1000) None
   \<and> Knott (\<lambda>Re Pr L Di mu mu_w. Inr (1.86 * (Re * Pr) powr (1 / 3))) 1 0.9 0.3 1000 2.5
         (Some 2300) (Some 0.6) (Some (1 / 1000)) (Some 0) (Some 4) None
       = Knott (\<lambda>Re Pr L Di mu mu_w. Inr (1.86 * (Re * Pr) powr (1 / 3))) 1 0.9 0.3 1000 2.5
         (Some 2300) (Some 0.6) (Some (1 / 1000)) None (Some 4) None"
  using zero_optional_is_absent[where m = 10 and D = "0.3" and mul = "1 / 1000" and kl = "0.6"
      and Hvap = 2000000 and Te = "Some 100"]
    zero_optional_is_absent[where m = 1 and x = "0.9" and D = "0.3" and rhol = 1000
      and rhog = "2.5" and Cpl = 2300 and kl = "0.6" and mug = "1 / 10 ^ 5" and mu_b = "1 / 1000"
      and lest = "\<lambda>Re Pr L Di mu mu_w. Inr (1.86 * (Re * Pr) powr (1 / 3))"
      and Cplo = "Some 2300" and klo = "Some 0.6" and mu_bo = "Some (1 / 1000)"
      and Lo = "Some 4" and hlo = None]
  by simp
section \<open>The two branches of \<^verbatim>\<open>Aggour\<close>\<close>

lemma Aggour_Rel_valid:
  assumes "0 < m" "x < 1" "alpha < 1" "0 < D" "0 < rhol" "0 < Cpl" "0 < kl" "0 < mu_b"
  shows "Aggour_Rel m x alpha D rhol Cpl kl mu_b
    = Inr (Cpl * mu_b / kl,
           m * (1 - x) / (rhol * pi / 4 * D ^ 2) / (1 - alpha) * D / (mu_b / rhol))"
    and "0 < m * (1 - x) / (rhol * pi / 4 * D ^ 2) / (1 - alpha) * D / (mu_b / rhol)"
  using assms by (simp_all add: Aggour_Rel_def Prandtl_def Reynolds_def)

text \<open>
  Claim C8.  For positive inputs with \<open>x < 1\<close> and \<open>alpha < 1\<close> the liquid Reynolds number
  is \<open>Rel = Vl D / (mu_b / rhol)\<close> with \<open>Vl = m (1 - x) / (rhol \<pi>/4 D\<^sup>2) / (1 - alpha)\<close>.
  With \<^verbatim>\<open>turbulent=None\<close>, \<open>Aggour\<close> returns the turbulent formula when \<open>Rel > 2000\<close> and
  the laminar formula otherwise, so at \<open>Rel = 2000\<close> it is the laminar one; with
  \<^verbatim>\<open>turbulent=True\<close> it returns the turbulent formula and with \<^verbatim>\<open>turbulent=False\<close> the
  laminar formula, whatever \<open>Rel\<close> is.  The laminar formula divides by the tube length
  \<^verbatim>\<open>L\<close>, and is a \<^verbatim>\<open>TypeError\<close> when \<^verbatim>\<open>L\<close> is not supplied.
\<close>

theorem Aggour_piecewise:
  assumes "0 < m" "x < 1" "alpha < 1" "0 < D" "0 < rhol" "0 < Cpl" "0 < kl" "0 < mu_b"
    and "supplied_pos mu_w" "supplied_pos L"
  defines "Prl \<equiv> Cpl * mu_b / kl"
    and "Rel \<equiv> m * (1 - x) / (rhol * pi / 4 * D ^ 2) / (1 - alpha) * D / (mu_b / rhol)"
  defines "turbulent_formula \<equiv>
      Inr (0.0155 * (kl / D) * Rel powr 0.83 * Prl powr 0.5 * (1 - alpha) powr (- 0.83))"
    and "laminar_formula \<equiv>
      (case L of None \<Rightarrow> Inl TypeError
       | Some Lv \<Rightarrow> Inr (1.615 * (kl / D) * (Rel * Prl * D / Lv) powr (1 / 3)
           * (case mu_w of None \<Rightarrow> 1 | Some mw \<Rightarrow> (mu_b / mw) powr 0.14)
           * (1 - alpha) powr (- 1 / 3)))"
  shows "Aggour m x alpha D rhol Cpl kl mu_b mu_w L None
           = (if Rel > 2000 then turbulent_formula else laminar_formula)
    \<and> Aggour m x alpha D rhol Cpl kl mu_b mu_w L (Some True) = turbulent_formula
    \<and> Aggour m x alpha D rhol Cpl kl mu_b mu_w L (Some False) = laminar_formula"
proof -
  have pre: "Aggour_Rel m x alpha D rhol Cpl kl mu_b = Inr (Prl, Rel)" and Rel: "0 < Rel"
    unfolding Prl_def Rel_def using Aggour_Rel_valid[OF assms(1-8)] by simp_all
  have Prl: "0 < Prl" unfolding Prl_def using assms by simp
  have turb: "Aggour m x alpha D rhol Cpl kl mu_b mu_w L (Some True) = turbulent_formula"
    using pre Rel Prl assms(1-8) by (simp add: Aggour_def turbulent_formula_def)
  have lam: "Aggour m x alpha D rhol Cpl kl mu_b mu_w L (Some False) = laminar_formula"
    using pre Rel Prl assms(1-10)
    by (cases L; cases mu_w) (simp_all add: Aggour_def laminar_formula_def supplied_pos_def)
  have "Aggour m x alpha D rhol Cpl kl mu_b mu_w L None
      = (if Rel > 2000 then Aggour m x alpha D rhol Cpl kl mu_b mu_w L (Some True)
         else Aggour m x alpha D rhol Cpl kl mu_b mu_w L (Some False))"
    using pre by (simp add: Aggour_def)
  with turb lam show ?thesis by simp
qed

theorem Aggour_piecewise_witness:
  "Aggour 1 0.9 0.9 0.3 1000 2300 0.6 (1 / 1000) None None (Some True)
     = Inr (0.0155 * (0.6 / 0.3)
         * (1 * (1 - 0.9) / (1000 * pi / 4 * 0.3 ^ 2) / (1 - 0.9) * 0.3 / ((1 / 1000) / 1000)) powr 0.83
         * (2300 * (1 / 1000) / 0.6) powr 0.5 * (1 - 0.9) powr (- 0.83))
   \<and> Aggour 1 0.9 0.9 0.3 1000 2300 0.6 (1 / 1000) (Some (12 / 10 ^ 4)) (Some 4) (Some False)
     = Inr (1.615 * (0.6 / 0.3)
         * (1 * (1 - 0.9) / (1000 * pi / 4 * 0.3 ^ 2) / (1 - 0.9) * 0.3 / ((1 / 1000) / 1000)
             * (2300 * (1 / 1000) / 0.6) * 0.3 / 4) powr (1 / 3)
         * ((1 / 1000) / (12 / 10 ^ 4)) powr 0.14 * (1 - 0.9) powr (- 1 / 3))"
  using Aggour_piecewise[where m = 1 and x = "0.9" and alpha = "0.9" and D = "0.3" and rhol = 1000
      and Cpl = 2300 and kl = "0.6" and mu_b = "1 / 1000" and mu_w = None and L = None]
    Aggour_piecewise[where m = 1 and x = "0.9" and alpha = "0.9" and D = "0.3" and rhol = 1000
      and Cpl = 2300 and kl = "0.6" and mu_b = "1 / 1000" and mu_w = "Some (12 / 10 ^ 4)"
      and L = "Some 4"]
  by (simp add: supplied_pos_def)

section \<open>Positivity of the non-boiling coefficients\<close>

lemma Davis_David_pos:
  assumes "0 < m" "0 < x" "0 < D" "0 < rhol" "0 < rhog" "0 < Cpl" "0 < kl" "0 < mul"
  shows "\<exists>h. Davis_David m x D rhol rhog Cpl kl mul = Inr h \<and> 0 < h"
  using assms by (simp add: Davis_David_def Prandtl_def)

lemma mixture_Reynolds_pos:
  assumes "0 < m" "0 < x" "x < 1" "0 < D" "0 < rhol" "0 < rhog" "0 < mug" "0 < mu_b"
  shows "0 < D * (m * (1 - x) / (rhol * pi / 4 * D ^ 2)) * rhol / mu_b
           + D * (m * x / (rhog * pi / 4 * D ^ 2)) * rhog / mug"
  using assms by (intro add_pos_pos divide_pos_pos mult_pos_pos) simp_all

lemma Elamvaluthi_Srinivas_pos:
  assumes "0 < m" "0 < x" "x < 1" "0 < D" "0 < rhol" "0 < rhog" "0 < Cpl" "0 < kl" "0 < mug"
    "0 < mu_b" "supplied_pos mu_w"
  shows "\<exists>h. Elamvaluthi_Srinivas m x D rhol rhog Cpl kl mug mu_b mu_w = Inr h \<and> 0 < h"
  using mixture_Reynolds_pos[of m x D rhol rhog mug mu_b] assms
  by (cases mu_w) (simp_all add: Elamvaluthi_Srinivas_def Prandtl_def supplied_pos_def Let_def)

lemma Groothuis_Hendal_pos:
  assumes "0 < m" "0 < x" "x < 1" "0 < D" "0 < rhol" "0 < rhog" "0 < Cpl" "0 < kl" "0 < mug"
    "0 < mu_b" "supplied_pos mu_w"
  shows "\<exists>h. Groothuis_Hendal m x D rhol rhog Cpl kl mug mu_b mu_w water = Inr h \<and> 0 < h"
  using mixture_Reynolds_pos[of m x D rhol rhog mug mu_b] assms
  by (cases mu_w; cases water)
    (simp_all add: Groothuis_Hendal_def Prandtl_def supplied_pos_def Let_def)

lemma Hughmark_pos:
  assumes "0 < m" "x < 1" "alpha < 1" "0 < D" "0 < L" "0 < Cpl" "0 < kl"
    "supplied_pos mu_b" "supplied_pos mu_w"
  shows "\<exists>h. Hughmark m x alpha D L Cpl kl mu_b mu_w = Inr h \<and> 0 < h"
  using assms
  by (cases mu_b; cases mu_w) (simp_all add: Hughmark_def supplied_pos_def Let_def)

lemma velocity_ratio_pos:
  assumes "0 < m" "0 < x" "x < 1" "0 < D" "0 < rhol" "0 < rhog"
  shows "0 < 1 + m * x / (rhog * pi / 4 * D ^ 2) / (m * (1 - x) / (rhol * pi / 4 * D ^ 2))"
  using assms by (intro add_pos_pos divide_pos_pos mult_pos_pos) simp_all

lemma Knott_pos_hl:
  assumes "0 < m" "0 < x" "x < 1" "0 < D" "0 < rhol" "0 < rhog" "0 < hl"
  shows "\<exists>h. Knott lest m x D rhol rhog Cpl kl mu_b mu_w L (Some hl) = Inr h \<and> 0 < h"
  using velocity_ratio_pos[OF assms(1-6)] assms by (simp add: Knott_def)

lemma Knott_pos_lest:
  assumes "0 < m" "0 < x" "x < 1" "0 < D" "0 < rhol" "0 < rhog" "0 < cp" "0 < k" "0 < mb"
    and lest: "\<forall>Re Pr. 0 < Re \<and> 0 < Pr
                 \<longrightarrow> (\<exists>Nul. lest Re Pr L D (Some mb) mu_w = Inr Nul \<and> 0 < Nul)"
  shows "\<exists>h. Knott lest m x D rhol rhog (Some cp) (Some k) (Some mb) mu_w L None = Inr h
            \<and> 0 < h"
proof -
  define Rn where "Rn = (m * x / (rhog * pi / 4 * D ^ 2) + m * (1 - x) / (rhol * pi / 4 * D ^ 2))
                          * D / (mb / rhol)"
  have Rn: "0 < Rn"
    unfolding Rn_def using assms(1-9)
    by (intro add_pos_pos divide_pos_pos mult_pos_pos) simp_all
  have Pn: "0 < cp * mb / k" using assms by simp
  obtain Nul where N: "lest Rn (cp * mb / k) L D (Some mb) mu_w = Inr Nul" "0 < Nul"
    using lest Rn Pn by blast
  show ?thesis
    using assms(1-9) N velocity_ratio_pos[OF assms(1-6)]
    by (simp add: Knott_def Reynolds_def Prandtl_def Let_def Rn_def)
qed

lemma Kudirka_Grosh_McFadden_pos:
  assumes "0 < m" "0 < x" "x < 1" "0 < D" "0 < rhol" "0 < rhog" "0 < Cpl" "0 < kl" "0 < mug"
    "0 < mu_b" "supplied_pos mu_w"
  shows "\<exists>h. Kudirka_Grosh_McFadden m x D rhol rhog Cpl kl mug mu_b mu_w = Inr h \<and> 0 < h"
  using assms
  by (cases mu_w) (simp_all add: Kudirka_Grosh_McFadden_def Prandtl_def supplied_pos_def)

lemma Martin_Sims_pos:
  assumes "0 < m" "0 < x" "x < 1" "0 < D" "0 < rhol" "0 < rhog" "0 < hl"
  shows "\<exists>h. Martin_Sims m x D rhol rhog hl = Inr h \<and> 0 < h"
proof -
  have "0 < 1 + 0.64 * (m * x / (rhog * pi / 4 * D ^ 2)
                          / (m * (1 - x) / (rhol * pi / 4 * D ^ 2))) powr 0.5"
    by (intro add_pos_nonneg mult_nonneg_nonneg) simp_all
  then show ?thesis
    using assms by (simp add: Martin_Sims_def)
qed

lemma Ravipudi_Godbold_pos:
  assumes "0 < m" "0 < x" "x < 1" "0 < D" "0 < rhol" "0 < rhog" "0 < Cpl" "0 < kl" "0 < mug"
    "0 < mu_b" "supplied_pos mu_w"
  shows "\<exists>h. Ravipudi_Godbold m x D rhol rhog Cpl kl mug mu_b mu_w = Inr h \<and> 0 < h"
  using assms
  by (cases mu_w) (simp_all add: Ravipudi_Godbold_def Prandtl_def supplied_pos_def)

lemma Aggour_pos_turbulent:
  assumes "0 < m" "x < 1" "alpha < 1" "0 < D" "0 < rhol" "0 < Cpl" "0 < kl" "0 < mu_b"
    and "turbulent = Some True \<or> turbulent = None
          \<and> 2000 < m * (1 - x) / (rhol * pi / 4 * D ^ 2) / (1 - alpha) * D / (mu_b / rhol)"
  shows "\<exists>h. Aggour m x alpha D rhol Cpl kl mu_b mu_w L turbulent = Inr h \<and> 0 < h"
  using Aggour_Rel_valid[OF assms(1-8)] assms
  by (auto simp add: Aggour_def)

lemma Aggour_pos_L:
  assumes "0 < m" "x < 1" "alpha < 1" "0 < D" "0 < rhol" "0 < Cpl" "0 < kl" "0 < mu_b"
    and "supplied_pos mu_w" "0 < Lv"
  shows "\<exists>h. Aggour m x alpha D rhol Cpl kl mu_b mu_w (Some Lv) turbulent = Inr h \<and> 0 < h"
  using Aggour_Rel_valid[OF assms(1-8)] assms
  by (cases mu_w) (auto simp add: Aggour_def supplied_pos_def)

text \<open>
  Claim C9.  With strictly positive mass flow, diameter, length, densities, heat
  capacity, conductivity and viscosities, a wall viscosity and a reference coefficient
  \<^verbatim>\<open>hl\<close> that are positive when supplied, and quality and void fraction strictly between
  0 and 1, each of the nine correlations returns a coefficient, and it is strictly
  positive.  \<^verbatim>\<open>Knott\<close> without \<^verbatim>\<open>hl\<close> takes its Nusselt number from
  \<^verbatim>\<open>laminar_entry_Seider_Tate\<close>, and is positive when that helper returns a positive
  number on positive Reynolds and Prandtl numbers.  \<^verbatim>\<open>Aggour\<close> returns on its turbulent
  branch whatever \<^verbatim>\<open>L\<close> is, and on its laminar branch when \<^verbatim>\<open>L\<close> is supplied.
\<close>

theorem nonboiling_coefficients_positive:
  assumes "0 < m" "0 < x" "x < 1" "0 < alpha" "alpha < 1" "0 < D" "0 < L"
    and "0 < rhol" "0 < rhog" "0 < Cpl" "0 < kl" "0 < mul" "0 < mug" "0 < mu_b" "0 < hl"
    and "supplied_pos mu_w"
  shows "(\<exists>h. Davis_David m x D rhol rhog Cpl kl mul = Inr h \<and> 0 < h)
    \<and> (\<exists>h. Elamvaluthi_Srinivas m x D rhol rhog Cpl kl mug mu_b mu_w = Inr h \<and> 0 < h)
    \<and> (\<exists>h. Groothuis_Hendal m x D rhol rhog Cpl kl mug mu_b mu_w water = Inr h \<and> 0 < h)
    \<and> (\<exists>h. Hughmark m x alpha D L Cpl kl (Some mu_b) mu_w = Inr h \<and> 0 < h)
    \<and> (\<exists>h. Hughmark m x alpha D L Cpl kl None mu_w = Inr h \<and> 0 < h)
    \<and> (\<exists>h. Knott lest m x D rhol rhog Cplo klo mu_bo mu_w Lo (Some hl) = Inr h \<and> 0 < h)
    \<and> ((\<forall>Re Pr. 0 < Re \<and> 0 < Pr
            \<longrightarrow> (\<exists>Nul. lest Re Pr (Some L) D (Some mu_b) mu_w = Inr Nul \<and> 0 < Nul))
        \<longrightarrow> (\<exists>h. Knott lest m x D rhol rhog (Some Cpl) (Some kl) (Some mu_b) mu_w (Some L) None
                    = Inr h \<and> 0 < h))
    \<and> (\<exists>h. Kudirka_Grosh_McFadden m x D rhol rhog Cpl kl mug mu_b mu_w = Inr h \<and> 0 < h)
    \<and> (\<exists>h. Martin_Sims m x D rhol rhog hl = Inr h \<and> 0 < h)
    \<and> (\<exists>h. Ravipudi_Godbold m x D rhol rhog Cpl kl mug mu_b mu_w = Inr h \<and> 0 < h)
    \<and> (\<exists>h. Aggour m x alpha D rhol Cpl kl mu_b mu_w (Some L) turbulent = Inr h \<and> 0 < h)
    \<and> (\<exists>h. Aggour m x alpha D rhol Cpl kl mu_b mu_w Lo (Some True) = Inr h \<and> 0 < h)
    \<and> (2000 < m * (1 - x) / (rhol * pi / 4 * D ^ 2) / (1 - alpha) * D / (mu_b / rhol)
        \<longrightarrow> (\<exists>h. Aggour m x alpha D rhol Cpl kl mu_b mu_w Lo None = Inr h \<and> 0 < h))"
proof -
  have sb: "supplied_pos (Some mu_b)" "supplied_pos None"
    using assms by (simp_all add: supplied_pos_def)
  show ?thesis
    using Davis_David_pos[of m x D rhol rhog Cpl kl mul]
      Elamvaluthi_Srinivas_pos[of m x D rhol rhog Cpl kl mug mu_b mu_w]
      Groothuis_Hendal_pos[of m x D rhol rhog Cpl kl mug mu_b mu_w water]
      Hughmark_pos[of m x alpha D L Cpl kl "Some mu_b" mu_w]
      Hughmark_pos[of m x alpha D L Cpl kl None mu_w]
      Knott_pos_hl[of m x D rhol rhog hl lest Cplo klo mu_bo mu_w Lo]
      Knott_pos_lest[of m x D rhol rhog Cpl kl mu_b lest "Some L" mu_w]
      Kudirka_Grosh_McFadden_pos[of m x D rhol rhog Cpl kl mug mu_b mu_w]
      Martin_Sims_pos[of m x D rhol rhog hl]
      Ravipudi_Godbold_pos[of m x D rhol rhog Cpl kl mug mu_b mu_w]
      Aggour_pos_L[of m x alpha D rhol Cpl kl mu_b mu_w L turbulent]
      Aggour_pos_turbulent[of m x alpha D rhol Cpl kl mu_b "Some True" mu_w Lo]
      Aggour_pos_turbulent[of m x alpha D rhol Cpl kl mu_b None mu_w Lo]
      assms sb
    by (intro conjI impI) blast+
qed

theorem nonboiling_coefficients_positive_witness:
  "(\<exists>h. Davis_David 1 0.9 0.3 1000 2.5 2300 0.6 (1 / 1000) = Inr h \<and> 0 < h)
   \<and> (\<exists>h. Elamvaluthi_Srinivas 1 0.9 0.3 1000 2.5 2300 0.6 (1 / 10 ^ 5) (1 / 1000)
            (Some (12 / 10 ^ 4)) = Inr h \<and> 0 < h)
   \<and> (\<exists>h. Groothuis_Hendal 1 0.9 0.3 1000 2.5 2300 0.6 (1 / 10 ^ 5) (1 / 1000)
            (Some (12 / 10 ^ 4)) False = Inr h \<and> 0 < h)
   \<and> (\<exists>h. Hughmark 1 0.9 0.9 0.3 4 2300 0.6 (Some (1 / 1000)) (Some (12 / 10 ^ 4)) = Inr h
            \<and> 0 < h)
   \<and> (\<exists>h. Knott (\<lambda>Re Pr L Di mu mu_w. Inr ((Re * Pr) powr (1 / 3))) 1 0.9 0.3 1000 2.5
            (Some 2300) (Some 0.6) (Some (1 / 1000)) (Some (12 / 10 ^ 4)) (Some 4) None = Inr h
            \<and> 0 < h)
   \<and> (\<exists>h. Kudirka_Grosh_McFadden 1 0.9 0.3 1000 2.5 2300 0.6 (1 / 10 ^ 5) (1 / 1000)
            (Some (12 / 10 ^ 4)) = Inr h \<and> 0 < h)
   \<and> (\<exists>h. Martin_Sims 1 0.9 0.3 1000 2.5 141.2 = Inr h \<and> 0 < h)
   \<and> (\<exists>h. Ravipudi_Godbold 1 0.9 0.3 1000 2.5 2300 0.6 (1 / 10 ^ 5) (1 / 1000)
            (Some (12 / 10 ^ 4)) = Inr h \<and> 0 < h)
   \<and> (\<exists>h. Aggour 1 0.9 0.9 0.3 1000 2300 0.6 (1 / 1000) (Some (12 / 10 ^ 4)) (Some 4) None
            = Inr h \<and> 0 < h)"
  using nonboiling_coefficients_positive[where m = 1 and x = "0.9" and alpha = "0.9"
      and D = "0.3" and L = 4 and rhol = 1000 and rhog = "2.5" and Cpl = 2300 and kl = "0.6"
      and mul = "1 / 1000" and mug = "1 / 10 ^ 5" and mu_b = "1 / 1000" and hl = "141.2"
      and mu_w = "Some (12 / 10 ^ 4)" and water = False and turbulent = None
      and lest = "\<lambda>Re Pr L Di mu mu_w. Inr ((Re * Pr) powr (1 / 3))"]
  by (simp add: supplied_pos_def)

section \<open>The analytic inverses of the power-law correlations\<close>

text \<open>
  A power law \<open>h = A (B q)\<^sup>a\<close> with \<open>0 < a < 1\<close>, read as an equation for \<open>h\<close> at a given
  \<open>Te = q/h\<close>, has the solution \<open>h = (A (B Te)\<^sup>a)\<^sup>1\<^sup>/\<^sup>(\<^sup>1\<^sup>-\<^sup>a\<^sup>)\<close>.
\<close>

lemma power_law_inverse:
  fixes A B q a :: real
  assumes "0 < A" "0 < B" "0 < q" "0 < a" "a < 1"
  defines "h \<equiv> A * (B * q) powr a"
  shows "0 < h" and "(A * (B * (q / h)) powr a) powr (1 / (1 - a)) = h"
proof -
  show h: "0 < h"
    unfolding h_def using assms(1-3) by simp
  have "(B * (q / h)) powr a = (B * q) powr a / h powr a"
  proof -
    have "B * (q / h) = (B * q) / h" by simp
    then show ?thesis using assms(2,3) h by (simp only: powr_divide mult_nonneg_nonneg less_imp_le)
  qed
  then have "A * (B * (q / h)) powr a = h / h powr a"
    by (simp add: h_def)
  also have "\<dots> = h powr (1 - a)"
    using h by (simp add: powr_diff)
  finally have "(A * (B * (q / h)) powr a) powr (1 / (1 - a)) = (h powr (1 - a)) powr (1 / (1 - a))"
    by simp
  also have "\<dots> = h"
    using h assms(5) by (simp add: powr_powr)
  finally show "(A * (B * (q / h)) powr a) powr (1 / (1 - a)) = h" .
qed

lemma Lazarek_Black_roundtrip:
  assumes "0 < m" "0 < D" "0 < mul" "0 < kl" "0 < Hvap" "0 < q"
  shows "\<exists>h. Lazarek_Black m D mul kl Hvap (Some q) None = Inr h \<and> 0 < h
            \<and> Lazarek_Black m D mul kl Hvap None (Some (q / h)) = Inr h \<and> h * (q / h) = q"
proof -
  define G where "G = m / (pi / 4 * D ^ 2)"
  define Relo where "Relo = G * D / mul"
  define A where "A = 30 * Relo powr 0.857 * kl / D"
  define B where "B = 1 / (G * Hvap)"
  define h where "h = 30 * Relo powr 0.857 * (q / (G * Hvap)) powr 0.714 * kl / D"
  have G: "0 < G" unfolding G_def using assms by simp
  have Relo: "0 < Relo" unfolding Relo_def using G assms by simp
  have A: "0 < A" unfolding A_def using Relo assms by simp
  have B: "0 < B" unfolding B_def using G assms by simp
  have hA: "h = A * (B * q) powr 0.714" by (simp add: h_def A_def B_def)
  have h: "0 < h" and inv: "(A * (B * (q / h)) powr 0.714) powr (1 / (1 - 0.714)) = h"
    unfolding hA using power_law_inverse[OF A B \<open>0 < q\<close>, of "0.714"] by simp_all
  have Te: "0 < q / h" using h assms by simp
  have fwd: "Lazarek_Black m D mul kl Hvap (Some q) None = Inr h"
    unfolding h_def Relo_def G_def using assms
    by (simp add: Lazarek_Black_def Boiling_def)
  have e30: "(30::real) powr (500 / 143) = 27000 * 30 powr (71 / 143)"
  proof -
    have "(30::real) powr (500 / 143) = 30 powr (3 + 71 / 143)" by simp
    also have "\<dots> = 30 powr 3 * 30 powr (71 / 143)" by (rule powr_add)
    finally show ?thesis by simp
  qed
  have "(A * (B * (q / h)) powr 0.714) powr (1 / (1 - 0.714))
      = 27000 * 30 powr (71 / 143) * (1 / (G * Hvap)) powr (357 / 143) * Relo powr (857 / 286)
          * (q / h) powr (357 / 143) * kl powr (500 / 143) / D powr (500 / 143)"
    using Relo assms G Te e30
    by (simp add: A_def B_def powr_mult powr_divide powr_powr ac_simps)
  with inv have eq: "27000 * 30 powr (71 / 143) * (1 / (G * Hvap)) powr (357 / 143) * Relo powr (857 / 286)
          * (q / h) powr (357 / 143) * kl powr (500 / 143) / D powr (500 / 143) = h"
    by simp
  have bwd: "Lazarek_Black m D mul kl Hvap None (Some (q / h)) = Inr h"
    using assms Te h eq[unfolded Relo_def G_def]
    by (simp add: Lazarek_Black_def)
  show ?thesis using fwd bwd h by auto
qed

lemma Li_Wu_roundtrip:
  assumes "0 < m" "0 \<le> x" "x < 1" "0 < D" "0 < rhog" "rhog < rhol" "0 < mul" "0 < kl" "0 < Hvap"
    "0 < sigma" "0 < q"
  shows "\<exists>h. Li_Wu m x D rhol rhog mul kl Hvap sigma (Some q) None = Inr h \<and> 0 < h
            \<and> Li_Wu m x D rhol rhog mul kl Hvap sigma None (Some (q / h)) = Inr h
            \<and> h * (q / h) = q"
proof -
  define G where "G = m / (pi / 4 * D ^ 2)"
  define Rel where "Rel = G * D * (1 - x) / mul"
  define Bo where "Bo = g * (rhol - rhog) * D ^ 2 / sigma"
  define A where "A = 334 * (Bo * Rel powr 0.36) powr 0.4 * kl / D"
  define B where "B = 1 / (G * Hvap)"
  define h where "h = 334 * (q / (G * Hvap)) powr 0.3 * (Bo * Rel powr 0.36) powr 0.4 * kl / D"
  have G: "0 < G" unfolding G_def using assms by simp
  have Rel: "0 < Rel" unfolding Rel_def using G assms by simp
  have Bo: "0 < Bo" unfolding Bo_def g_def using assms by simp
  have BR: "0 < Bo * Rel powr 0.36" using Bo Rel by simp
  have A: "0 < A" unfolding A_def using Bo Rel assms by simp
  have B: "0 < B" unfolding B_def using G assms by simp
  have hA: "h = A * (B * q) powr 0.3" by (simp add: h_def A_def B_def)
  have h: "0 < h" and inv: "(A * (B * (q / h)) powr 0.3) powr (1 / (1 - 0.3)) = h"
    unfolding hA using power_law_inverse[OF A B \<open>0 < q\<close>, of "0.3"] by simp_all
  have Te: "0 < q / h" using h assms by simp
  have fwd: "Li_Wu m x D rhol rhog mul kl Hvap sigma (Some q) None = Inr h"
    using assms BR[unfolded Bo_def Rel_def G_def] unfolding h_def Bo_def Rel_def G_def
    by (simp add: Li_Wu_def Boiling_def Bond_def)
  have "(A * (B * (q / h)) powr 0.3) powr (1 / (1 - 0.3))
      = A powr (10 / 7) * (q / h) powr (3 / 7) / (G powr (3 / 7) * Hvap powr (3 / 7))"
    using A assms G Te
    by (simp add: B_def powr_mult powr_divide powr_powr)
  with inv have eq: "A powr (10 / 7) * (q / h) powr (3 / 7) / (G powr (3 / 7) * Hvap powr (3 / 7)) = h"
    by simp
  have bwd: "Li_Wu m x D rhol rhog mul kl Hvap sigma None (Some (q / h)) = Inr h"
    using assms Te h eq[unfolded A_def Bo_def Rel_def G_def] BR[unfolded Bo_def Rel_def G_def]
      A[unfolded A_def Bo_def Rel_def G_def]
    by (simp add: Li_Wu_def Bond_def)
  show ?thesis using fwd bwd h by auto
qed

lemma Sun_Mishima_roundtrip:
  assumes "0 < m" "0 < D" "0 < rhol" "0 < rhog" "0 < mul" "0 < kl" "0 < Hvap" "0 < sigma" "0 < q"
  shows "\<exists>h. Sun_Mishima m D rhol rhog mul kl Hvap sigma (Some q) None = Inr h \<and> 0 < h
            \<and> Sun_Mishima m D rhol rhog mul kl Hvap sigma None (Some (q / h)) = Inr h
            \<and> h * (q / h) = q"
proof -
  define G where "G = m / (pi / 4 * D ^ 2)"
  define Relo where "Relo = G * D / mul"
  define We where "We = (G / rhol) ^ 2 * D * rhol / sigma"
  define A where "A = 6 * Relo powr 1.05 / (We powr 0.191 * (rhol / rhog) powr 0.142) * kl / D"
  define B where "B = 1 / (G * Hvap)"
  define h where "h = 6 * Relo powr 1.05 * (q / (G * Hvap)) powr 0.54
                        / (We powr 0.191 * (rhol / rhog) powr 0.142) * kl / D"
  have G: "0 < G" unfolding G_def using assms by simp
  have Relo: "0 < Relo" unfolding Relo_def using G assms by simp
  have We: "0 < We" unfolding We_def using G assms by simp
  have A: "0 < A" unfolding A_def using Relo We assms by simp
  have B: "0 < B" unfolding B_def using G assms by simp
  have hA: "h = A * (B * q) powr 0.54" by (simp add: h_def A_def B_def)
  have h: "0 < h" and inv: "(A * (B * (q / h)) powr 0.54) powr (1 / (1 - 0.54)) = h"
    unfolding hA using power_law_inverse[OF A B \<open>0 < q\<close>, of "0.54"] by simp_all
  have Te: "0 < q / h" using h assms by simp
  have fwd: "Sun_Mishima m D rhol rhog mul kl Hvap sigma (Some q) None = Inr h"
    using assms We[unfolded We_def G_def] unfolding h_def We_def Relo_def G_def
    by (simp add: Sun_Mishima_def Boiling_def Weber_def)
  have "(A * (B * (q / h)) powr 0.54) powr (1 / (1 - 0.54))
      = A powr (50 / 23) * (q / h) powr (27 / 23) / (G powr (27 / 23) * Hvap powr (27 / 23))"
    using A assms G Te
    by (simp add: B_def powr_mult powr_divide powr_powr)
  with inv have eq: "A powr (50 / 23) * (q / h) powr (27 / 23) / (G powr (27 / 23) * Hvap powr (27 / 23)) = h"
    by simp
  have bwd: "Sun_Mishima m D rhol rhog mul kl Hvap sigma None (Some (q / h)) = Inr h"
    using assms Te h eq[unfolded A_def We_def Relo_def G_def] We[unfolded We_def G_def]
      A[unfolded A_def We_def Relo_def G_def]
    by (simp add: Sun_Mishima_def Weber_def)
  show ?thesis using fwd bwd h by auto
qed

lemma Yun_Heo_Kim_roundtrip:
  assumes "0 < m" "0 \<le> x" "x < 1" "0 < D" "0 < rhol" "0 < mul" "0 < Hvap" "0 < sigma" "0 < q"
  shows "\<exists>h. Yun_Heo_Kim m x D rhol mul Hvap sigma (Some q) None = Inr h \<and> 0 < h
            \<and> Yun_Heo_Kim m x D rhol mul Hvap sigma None (Some (q / h)) = Inr h
            \<and> h * (q / h) = q"
proof -
  define G where "G = m / (pi / 4 * D ^ 2)"
  define Rel where "Rel = G * D * (1 - x) / mul"
  define We where "We = (G / rhol) ^ 2 * D * rhol / sigma"
  define A where "A = 136876 * We powr 0.1993 * Rel powr (- 0.1626)"
  define B where "B = 1 / (G * Hvap)"
  define h where "h = 136876 * (q / (G * Hvap) * We) powr 0.1993 * Rel powr (- 0.1626)"
  have G: "0 < G" unfolding G_def using assms by simp
  have Rel: "0 < Rel" unfolding Rel_def using G assms by simp
  have We: "0 < We" unfolding We_def using G assms by simp
  have A: "0 < A" unfolding A_def using Rel We assms by simp
  have B: "0 < B" unfolding B_def using G assms by simp
  have hA: "h = A * (B * q) powr 0.1993"
    using We G assms by (simp add: h_def A_def B_def powr_mult powr_divide)
  have h: "0 < h" and inv: "(A * (B * (q / h)) powr 0.1993) powr (1 / (1 - 0.1993)) = h"
    unfolding hA using power_law_inverse[OF A B \<open>0 < q\<close>, of "0.1993"] by simp_all
  have Te: "0 < q / h" using h assms by simp
  have BW: "0 < q / (G * Hvap) * We" using G We assms by simp
  have fwd: "Yun_Heo_Kim m x D rhol mul Hvap sigma (Some q) None = Inr h"
    using assms BW[unfolded We_def G_def] Rel[unfolded Rel_def G_def] unfolding h_def We_def Rel_def G_def
    by (simp add: Yun_Heo_Kim_def Boiling_def Weber_def)
  have "(A * (B * (q / h)) powr 0.1993) powr (1 / (1 - 0.1993))
      = (136876 * We powr 0.1993 * Rel powr (- 0.1626) * (q / h / G / Hvap) powr 0.1993) powr (10000 / 8007)"
    by (simp add: A_def B_def ac_simps)
  with inv have eq: "(136876 * We powr 0.1993 * Rel powr (- 0.1626) * (q / h / G / Hvap) powr 0.1993) powr (10000 / 8007) = h"
    by simp
  have pos: "0 < 136876 * We powr 0.1993 * Rel powr (- 0.1626) * (q / h / G / Hvap) powr 0.1993"
    using We Rel h G assms by simp
  have bwd: "Yun_Heo_Kim m x D rhol mul Hvap sigma None (Some (q / h)) = Inr h"
    using assms Te h eq[unfolded We_def Rel_def G_def] We[unfolded We_def G_def] Rel[unfolded Rel_def G_def]
      pos[unfolded We_def Rel_def G_def]
    by (simp add: Yun_Heo_Kim_def Weber_def)
  show ?thesis using fwd bwd h by auto
qed

text \<open>
  Claim C4.  For \<^verbatim>\<open>Lazarek_Black\<close>, \<^verbatim>\<open>Li_Wu\<close>, \<^verbatim>\<open>Sun_Mishima\<close> and \<^verbatim>\<open>Yun_Heo_Kim\<close> with
  positive inputs (quality below 1, and the liquid denser than the gas for the Bond
  number of \<^verbatim>\<open>Li_Wu\<close>) and a heat flux \<open>q > 0\<close>: the heat-flux call returns a positive
  \<open>h\<close>, and the call with \<open>Te = q/h\<close> and no \<open>q\<close> returns the same \<open>h\<close>, so that the
  returned coefficient times \<open>Te\<close> is the original \<open>q\<close>.
\<close>

theorem excess_temperature_inverts_heat_flux:
  assumes "0 < m" "0 < x" "x < 1" "0 < D" "0 < rhog" "rhog < rhol" "0 < mul" "0 < kl"
    "0 < Hvap" "0 < sigma" "0 < q"
  shows "(\<exists>h. Lazarek_Black m D mul kl Hvap (Some q) None = Inr h \<and> 0 < h
            \<and> Lazarek_Black m D mul kl Hvap None (Some (q / h)) = Inr h \<and> h * (q / h) = q)
    \<and> (\<exists>h. Li_Wu m x D rhol rhog mul kl Hvap sigma (Some q) None = Inr h \<and> 0 < h
            \<and> Li_Wu m x D rhol rhog mul kl Hvap sigma None (Some (q / h)) = Inr h
            \<and> h * (q / h) = q)
    \<and> (\<exists>h. Sun_Mishima m D rhol rhog mul kl Hvap sigma (Some q) None = Inr h \<and> 0 < h
            \<and> Sun_Mishima m D rhol rhog mul kl Hvap sigma None (Some (q / h)) = Inr h
            \<and> h * (q / h) = q)
    \<and> (\<exists>h. Yun_Heo_Kim m x D rhol mul Hvap sigma (Some q) None = Inr h \<and> 0 < h
            \<and> Yun_Heo_Kim m x D rhol mul Hvap sigma None (Some (q / h)) = Inr h
            \<and> h * (q / h) = q)"
proof -
  have rhol: "0 < rhol" and x0: "0 \<le> x" using assms by simp_all
  show ?thesis
    using Lazarek_Black_roundtrip[of m D mul kl Hvap q]
      Li_Wu_roundtrip[of m x D rhog rhol mul kl Hvap sigma q]
      Sun_Mishima_roundtrip[of m D rhol rhog mul kl Hvap sigma q]
      Yun_Heo_Kim_roundtrip[of m x D rhol mul Hvap sigma q]
      assms rhol x0
    by (intro conjI) blast+
qed

theorem excess_temperature_inverts_heat_flux_witness:
  "(\<exists>h. Lazarek_Black 1 0.3 (156 / 10 ^ 6) 0.086 900000 (Some 100000) None = Inr h \<and> 0 < h
        \<and> Lazarek_Black 1 0.3 (156 / 10 ^ 6) 0.086 900000 None (Some (100000 / h)) = Inr h
        \<and> h * (100000 / h) = 100000)
   \<and> (\<exists>h. Li_Wu 1 0.2 0.3 567 18.09 (156 / 10 ^ 6) 0.086 900000 0.02 (Some 100000) None
          = Inr h \<and> 0 < h
        \<and> Li_Wu 1 0.2 0.3 567 18.09 (156 / 10 ^ 6) 0.086 900000 0.02 None (Some (100000 / h))
          = Inr h
        \<and> h * (100000 / h) = 100000)
   \<and> (\<exists>h. Sun_Mishima 1 0.3 567 18.09 (156 / 10 ^ 6) 0.086 900000 0.02 (Some 100000) None
          = Inr h \<and> 0 < h
        \<and> Sun_Mishima 1 0.3 567 18.09 (156 / 10 ^ 6) 0.086 900000 0.02 None
            (Some (100000 / h)) = Inr h
        \<and> h * (100000 / h) = 100000)
   \<and> (\<exists>h. Yun_Heo_Kim 1 0.2 0.3 567 (156 / 10 ^ 6) 900000 0.02 (Some 100000) None = Inr h
        \<and> 0 < h
        \<and> Yun_Heo_Kim 1 0.2 0.3 567 (156 / 10 ^ 6) 900000 0.02 None (Some (100000 / h))
          = Inr h
        \<and> h * (100000 / h) = 100000)"
  by (rule excess_temperature_inverts_heat_flux) simp_all

section \<open>The boiling cycle of \<^verbatim>\<open>Thome\<close> on valid inputs\<close>

lemma pair_velocity_pos:
  assumes "0 < m" "0 < x" "x < 1" "0 < D" "0 < rhol" "0 < rhog"
  shows "0 < pair_velocity m x D rhol rhog"
  unfolding pair_velocity_def mass_flux_def using assms
  by (intro mult_pos_pos add_pos_pos divide_pos_pos) simp_all

lemma pair_period_pos:
  assumes "0 < Psat" "0 < Pc" "0 < q"
  shows "0 < pair_period Psat Pc q"
  unfolding pair_period_def using assms by simp

lemma initial_film_pos:
  assumes "0 < m" "0 < x" "x < 1" "0 < D" "0 < rhol" "0 < rhog" "0 < mul" "0 < sigma"
  shows "0 < initial_film m x D rhol rhog mul sigma"
proof -
  have vp: "0 < pair_velocity m x D rhol rhog"
    using assms by (intro pair_velocity_pos)
  have "0 < inverse ((0.07 * (rhol * D / sigma * pair_velocity m x D rhol rhog ^ 2) powr 0.41) ^ 8)
          + inverse ((0.1::real) ^ 8)"
    by (intro add_nonneg_pos) simp_all
  then have w: "0 < (inverse ((0.07 * (rhol * D / sigma * pair_velocity m x D rhol rhog ^ 2)
                        powr 0.41) ^ 8) + inverse ((0.1::real) ^ 8)) powr (- 1 / 8)"
    by (simp only: powr_gt_zero)
  have y: "0 < (3 * (mul / rhol / pair_velocity m x D rhol rhog / D) powr 0.5) powr 0.84"
    using vp assms by simp
  have "0 < D * 0.29" using assms by simp
  then show ?thesis
    unfolding initial_film_def using y w by (intro mult_pos_pos) simp_all
qed

lemma liquid_vapor_time:
  assumes "0 < Psat" "0 < Pc" "0 < q" "0 < x" "x < 1" "0 < rhol" "0 < rhog"
  shows "0 < liquid_time Psat Pc q x rhol rhog" and "0 < vapor_time Psat Pc q x rhol rhog"
    and "liquid_time Psat Pc q x rhol rhog + vapor_time Psat Pc q x rhol rhog
          = pair_period Psat Pc q"
proof -
  define r where "r = rhol / rhog * (x / (1 - x))"
  have r: "0 < r" unfolding r_def using assms by simp
  have inv: "rhog / rhol * ((1 - x) / x) = 1 / r"
    unfolding r_def using assms by simp
  have tau: "0 < pair_period Psat Pc q" using assms by (intro pair_period_pos)
  show "0 < liquid_time Psat Pc q x rhol rhog"
    unfolding liquid_time_def r_def[symmetric] using tau r by simp
  have "0 < 1 + 1 / r" using r by (intro add_pos_pos) simp_all
  then show "0 < vapor_time Psat Pc q x rhol rhog"
    unfolding vapor_time_def inv using tau by (intro divide_pos_pos)
  have "1 / (1 + r) + 1 / (1 + 1 / r) = 1"
    using r by (simp add: field_simps)
  then have "pair_period Psat Pc q * (1 / (1 + r) + 1 / (1 + 1 / r)) = pair_period Psat Pc q"
    by simp
  then show "liquid_time Psat Pc q x rhol rhog + vapor_time Psat Pc q x rhol rhog
      = pair_period Psat Pc q"
    unfolding liquid_time_def vapor_time_def inv r_def[symmetric]
    by (simp add: distrib_left)
qed

lemma Thome_cycle_valid:
  assumes "0 < m" "0 < x" "x < 1" "0 < D" "0 < rhol" "0 < rhog" "0 < mul" "0 < mug"
    "0 < Hvap" "0 < sigma" "0 < Psat" "0 < Pc" "0 < q"
  defines "tdf \<equiv> film_drying_time m x D rhol rhog mul Hvap sigma q"
    and "tv \<equiv> vapor_time Psat Pc q x rhol rhog"
    and "delta0 \<equiv> initial_film m x D rhol rhog mul sigma"
  shows "\<exists>c. Thome_cycle m x D rhol rhog mul mug Hvap sigma Psat Pc (Some q) = Inr c
    \<and> cyc_G c = mass_flux m D
    \<and> cyc_Rel c = mass_flux m D * D * (1 - x) / mul
    \<and> cyc_Reg c = mass_flux m D * D * x / mug
    \<and> cyc_tau c = pair_period Psat Pc q
    \<and> cyc_vp c = pair_velocity m x D rhol rhog
    \<and> cyc_delta0 c = delta0
    \<and> cyc_tl c = liquid_time Psat Pc q x rhol rhog
    \<and> cyc_tv c = tv
    \<and> cyc_t_dry_film c = tdf
    \<and> cyc_t_film c = (if tdf > tv then tv else tdf)
    \<and> cyc_delta_end c = (if tdf > tv then delta0 - q / rhol / Hvap * tv else C_delta0)
    \<and> cyc_t_dry c = (if tdf > tv then 0 else tv - tdf)
    \<and> cyc_Ll c = pair_period Psat Pc q * mass_flux m D / rhol * (1 - x)
    \<and> cyc_Ldry c = (if tdf > tv then 0 else tv - tdf) * pair_velocity m x D rhol rhog"
proof -
  define G where "G = m / (pi / 4 * D ^ 2)"
  define qref where "qref = 3328 * (Psat / Pc) powr (- 0.5)"
  define tau where "tau = 1 / (q / qref) powr 1.74"
  define vp where "vp = G * (x / rhog + (1 - x) / rhol)"
  define Bo where "Bo = rhol * D / sigma * vp ^ 2"
  define a where "a = inverse ((0.07 * Bo powr 0.41) ^ 8)"
  define t where "t = inverse ((0.1::real) ^ 8)"
  define d0 where "d0 = D * 0.29 * (3 * (mul / rhol / vp / D) powr 0.5) powr 0.84
                          * (a + t) powr (- 1 / 8)"
  define tl where "tl = tau / (1 + rhol / rhog * (x / (1 - x)))"
  define tv' where "tv' = tau / (1 + rhog / rhol * ((1 - x) / x))"
  define tdf' where "tdf' = rhol * Hvap / q * (d0 - C_delta0)"
  have G: "0 < G" unfolding G_def using assms by simp
  have qref: "0 < qref" unfolding qref_def using assms by simp
  have fopt: "0 < (q / qref) powr 1.74" using qref assms by simp
  have vp: "0 < vp" unfolding vp_def using G assms
    by (intro mult_pos_pos add_pos_pos divide_pos_pos) simp_all
  have Bo: "0 < Bo" unfolding Bo_def using vp assms by simp
  have at: "0 < a + t" unfolding a_def t_def by (intro add_nonneg_pos) simp_all
  have r1: "1 + rhol / rhog * (x / (1 - x)) \<noteq> 0"
  proof -
    have "0 < 1 + rhol / rhog * (x / (1 - x))"
      using assms by (intro add_pos_pos mult_pos_pos divide_pos_pos) simp_all
    then show ?thesis by simp
  qed
  have r2: "1 + rhog / rhol * ((1 - x) / x) \<noteq> 0"
  proof -
    have "0 < 1 + rhog / rhol * ((1 - x) / x)"
      using assms by (intro add_pos_pos mult_pos_pos divide_pos_pos) simp_all
    then show ?thesis by simp
  qed
  have d1: "pdiv m (pi / 4 * D ^ 2) = Inr G"
    using assms(4) by (simp add: G_def)
  have d2: "3328 * (Psat / Pc) powr (- 0.5) = qref"
    by (simp only: qref_def)
  have d3: "pdiv 1 ((q / qref) powr 1.74) = Inr tau"
    using fopt by (simp add: tau_def)
  have d4: "G * (x / rhog + (1 - x) / rhol) = vp"
    by (simp only: vp_def)
  have d5: "rhol * D / sigma * vp ^ 2 = Bo"
    by (simp only: Bo_def)
  have d6: "pnegpow (0.07 * Bo powr 0.41) 8 = Inr a"
    using Bo by (simp add: a_def)
  have d7: "pnegpow 0.1 8 = Inr t"
    by (simp add: t_def)
  have d8: "D * 0.29 * (3 * (mul / rhol / vp / D) powr 0.5) powr 0.84 * (a + t) powr (- 1 / 8)
      = d0"
    by (simp only: d0_def)
  have d9: "pdiv tau (1 + rhol / rhog * (x / (1 - x))) = Inr tl"
    using r1 by (simp add: tl_def)
  have d10: "pdiv tau (1 + rhog / rhol * ((1 - x) / x)) = Inr tv'"
    using r2 by (simp add: tv'_def)
  have d11: "rhol * Hvap / q * (d0 - C_delta0) = tdf'"
    by (simp only: tdf'_def)
  note defsteps = d1 d2 d3 d4 d5 d6 d7 d8 d9 d10 d11
  have steps:
    "pdiv (G * D * (1 - x)) mul = Inr (G * D * (1 - x) / mul)"
    "pdiv (G * D * x) mug = Inr (G * D * x / mug)"
    "pdiv Psat Pc = Inr (Psat / Pc)"
    "ppow (Psat / Pc) (- 0.5) = Inr ((Psat / Pc) powr (- 0.5))"
    "pdiv q qref = Inr (q / qref)"
    "ppow (q / qref) 1.74 = Inr ((q / qref) powr 1.74)"
    "pdiv x rhog = Inr (x / rhog)"
    "pdiv (1 - x) rhol = Inr ((1 - x) / rhol)"
    "pdiv (rhol * D) sigma = Inr (rhol * D / sigma)"
    "nu_mu_converter rhol mul = Inr (mul / rhol)"
    "pdiv (mul / rhol) vp = Inr (mul / rhol / vp)"
    "pdiv (mul / rhol / vp) D = Inr (mul / rhol / vp / D)"
    "ppow (mul / rhol / vp / D) 0.5 = Inr ((mul / rhol / vp / D) powr 0.5)"
    "ppow (3 * (mul / rhol / vp / D) powr 0.5) 0.84
       = Inr ((3 * (mul / rhol / vp / D) powr 0.5) powr 0.84)"
    "ppow Bo 0.41 = Inr (Bo powr 0.41)"
    "ppow (a + t) (- 1 / 8) = Inr ((a + t) powr (- 1 / 8))"
    "pdiv rhol rhog = Inr (rhol / rhog)"
    "pdiv x (1 - x) = Inr (x / (1 - x))"
    "pdiv rhog rhol = Inr (rhog / rhol)"
    "pdiv (1 - x) x = Inr ((1 - x) / x)"
    "pdiv (rhol * Hvap) q = Inr (rhol * Hvap / q)"
    "pdiv q rhol = Inr (q / rhol)"
    "pdiv (q / rhol) Hvap = Inr (q / rhol / Hvap)"
    "pdiv (tau * G) rhol = Inr (tau * G / rhol)"
    using assms(1-13) G qref vp Bo at
    by (simp_all add: nu_mu_converter_def)
  have run: "Thome_cycle m x D rhol rhog mul mug Hvap sigma Psat Pc (Some q)
    = Inr \<lparr>cyc_G = G, cyc_Rel = G * D * (1 - x) / mul, cyc_Reg = G * D * x / mug,
           cyc_tau = tau, cyc_vp = vp, cyc_delta0 = d0, cyc_tl = tl, cyc_tv = tv',
           cyc_t_dry_film = tdf',
           cyc_t_film = (if tdf' > tv' then tv' else tdf'),
           cyc_delta_end = (if tdf' > tv' then d0 - q / rhol / Hvap * tv' else C_delta0),
           cyc_t_dry = (if tdf' > tv' then 0 else tv' - tdf'),
           cyc_Ll = tau * G / rhol * (1 - x),
           cyc_Ldry = (if tdf' > tv' then 0 else tv' - tdf') * vp\<rparr>"
  proof (cases "tdf' > tv'")
    case True
    then show ?thesis
      unfolding Thome_cycle_def
      by (simp only: steps defsteps bindE_Inr need_simps Let_def if_True prod.case)
  next
    case False
    then show ?thesis
      unfolding Thome_cycle_def
      by (simp only: steps defsteps bindE_Inr need_simps Let_def if_False prod.case)
  qed
  have names: "mass_flux m D = G" "pair_period Psat Pc q = tau"
    "pair_velocity m x D rhol rhog = vp" "delta0 = d0"
    "liquid_time Psat Pc q x rhol rhog = tl" "tv = tv'" "tdf = tdf'"
    by (simp_all add: mass_flux_def pair_period_def pair_velocity_def initial_film_def
        liquid_time_def vapor_time_def film_drying_time_def G_def qref_def tau_def vp_def
        Bo_def a_def t_def d0_def tl_def tv'_def tdf'_def delta0_def tv_def tdf_def)
  show ?thesis
    unfolding names run by simp
qed

lemma ppow_nonneg [simp]: "0 \<le> a \<Longrightarrow> 0 \<le> b \<Longrightarrow> ppow a b = Inr (a powr b)"
  by (simp add: ppow_def)

lemma Thome_coeffs_valid:
  assumes "D \<noteq> 0" "cyc_tau c \<noteq> 0" "cyc_delta0 c + C_delta0 \<noteq> 0"
  shows "\<exists>k. Thome_coeffs D kl kg c n = Inr k
    \<and> h_Zg k = kg / D * (Nu_lam_Zg n ^ 4 + Nu_trans_Zg n ^ 4) powr 0.25
    \<and> h_Zl k = kl / D * (Nu_lam_Zl n ^ 4 + Nu_trans_Zl n ^ 4) powr 0.25
    \<and> h_film k = 2 * kl / (cyc_delta0 c + C_delta0)
    \<and> h_ret k = cyc_tl c / cyc_tau c * h_Zl k + cyc_t_film c / cyc_tau c * h_film k
                  + cyc_t_dry c / cyc_tau c * h_Zg k"
  using assms by (simp add: Thome_coeffs_def)

lemma Thome_Nusselt_wet:
  assumes "cyc_Ldry c = 0" "0 < cyc_Reg c" "0 < cyc_Rel c" "0 < cyc_Ll c"
    and "0 < D" "0 < kl" "0 < kg" "0 < mul" "0 < Cpl"
    and "1.82 * log 10 (cyc_Reg c) - 1.64 \<noteq> 0" "1.82 * log 10 (cyc_Rel c) - 1.64 \<noteq> 0"
    and "gn (cyc_Rel c) (Cpl * mul / kl) (inverse ((1.82 * log 10 (cyc_Rel c) - 1.64) ^ 2))
           = Inr gl"
  shows "\<exists>n. Thome_Nusselt gn D mul mug kl kg Cpl Cpg c = Inr n
    \<and> Nu_lam_Zg n = 0 \<and> Nu_trans_Zg n = 0"
  using assms by (simp add: Thome_Nusselt_def Prandtl_def)

lemma Thome_wet_cycle:
  assumes "0 < m" "0 < x" "x < 1" "0 < D" "0 < rhol" "0 < rhog" "0 < mul" "0 < mug"
    "0 < Hvap" "0 < sigma" "0 < Psat" "0 < Pc" "0 < q" "0 < kl" "0 < kg" "0 < Cpl"
    and cyc: "Thome_cycle m x D rhol rhog mul mug Hvap sigma Psat Pc (Some q) = Inr c"
    and dry: "cyc_Ldry c = 0"
    and logs: "1.82 * log 10 (cyc_Reg c) - 1.64 \<noteq> 0" "1.82 * log 10 (cyc_Rel c) - 1.64 \<noteq> 0"
    and gn: "gn (cyc_Rel c) (Cpl * mul / kl) (inverse ((1.82 * log 10 (cyc_Rel c) - 1.64) ^ 2))
               = Inr gl"
  shows "\<exists>n k. Thome_Nusselt gn D mul mug kl kg Cpl Cpg c = Inr n
      \<and> Nu_lam_Zg n = 0 \<and> Nu_trans_Zg n = 0
      \<and> Thome_coeffs D kl kg c n = Inr k \<and> h_Zg k = 0
      \<and> h_ret k = cyc_tl c / cyc_tau c * h_Zl k + cyc_t_film c / cyc_tau c * h_film k
      \<and> Thome_direct gn m x D rhol rhog mul mug kl kg Cpl Cpg Hvap sigma Psat Pc (Some q)
            = Inr (h_ret k)"
proof -
  obtain c' where c': "Thome_cycle m x D rhol rhog mul mug Hvap sigma Psat Pc (Some q) = Inr c'"
    "cyc_Rel c' = mass_flux m D * D * (1 - x) / mul"
    "cyc_Reg c' = mass_flux m D * D * x / mug"
    "cyc_tau c' = pair_period Psat Pc q"
    "cyc_delta0 c' = initial_film m x D rhol rhog mul sigma"
    "cyc_Ll c' = pair_period Psat Pc q * mass_flux m D / rhol * (1 - x)"
    using Thome_cycle_valid[OF assms(1-13)] by blast
  with cyc have cc: "c' = c" by simp
  have G: "0 < mass_flux m D" unfolding mass_flux_def using assms(1,4) by simp
  have tau: "0 < cyc_tau c"
    using c'(4) cc pair_period_pos[OF assms(11-13)] by simp
  have d0: "0 < cyc_delta0 c"
    using c'(5) cc initial_film_pos[OF assms(1-7) assms(10)] by simp
  have Reg: "0 < cyc_Reg c" using c'(3) cc G assms(1-8) by simp
  have Rel: "0 < cyc_Rel c" using c'(2) cc G assms(1-8) by simp
  have Ll: "0 < cyc_Ll c"
    using c'(6) cc G pair_period_pos[OF assms(11-13)] assms(1-8) by simp
  obtain n where n: "Thome_Nusselt gn D mul mug kl kg Cpl Cpg c = Inr n"
    "Nu_lam_Zg n = 0" "Nu_trans_Zg n = 0"
    using Thome_Nusselt_wet[where gn = gn and gl = gl and mug = mug and Cpg = Cpg,
        OF dry Reg Rel Ll assms(4) assms(14) assms(15) assms(7) assms(16) logs gn]
    by blast
  have "cyc_delta0 c + C_delta0 \<noteq> 0" using d0 by (simp add: C_delta0_def)
  then obtain k where k: "Thome_coeffs D kl kg c n = Inr k"
    "h_Zg k = kg / D * (Nu_lam_Zg n ^ 4 + Nu_trans_Zg n ^ 4) powr 0.25"
    "h_ret k = cyc_tl c / cyc_tau c * h_Zl k + cyc_t_film c / cyc_tau c * h_film k
                  + cyc_t_dry c / cyc_tau c * h_Zg k"
    using Thome_coeffs_valid[of D c kl kg n] tau assms(4) by auto
  have z: "h_Zg k = 0" using k(2) n(2,3) by simp
  have "Thome_direct gn m x D rhol rhog mul mug kl kg Cpl Cpg Hvap sigma Psat Pc (Some q)
      = Inr (h_ret k)"
    by (simp add: Thome_direct_def cyc n(1) k(1))
  then show ?thesis
    using n k(1,3) z by simp
qed

lemma Thome_Nusselt_dry_zero:
  assumes "cyc_Ldry c = 0" "Thome_Nusselt gn D mul mug kl kg Cpl Cpg c = Inr n"
  shows "Nu_lam_Zg n = 0 \<and> Nu_trans_Zg n = 0"
  using assms
  by (auto simp add: Thome_Nusselt_def bindE_def split: sum.splits)

lemma Thome_coeffs_dry_zero:
  assumes "Nu_lam_Zg n = 0" "Nu_trans_Zg n = 0" "Thome_coeffs D kl kg c n = Inr k"
  shows "h_Zg k = 0
    \<and> h_ret k = cyc_tl c / cyc_tau c * h_Zl k + cyc_t_film c / cyc_tau c * h_film k"
  using assms
  by (auto simp add: Thome_coeffs_def bindE_def pdiv_def mult.commute
      split: sum.splits if_splits)

text \<open>
  Claim C3.  Whenever the dry-zone length \<^verbatim>\<open>Ldry\<close> computed by the cycle is zero, a run of
  the Nusselt stage that returns has set both vapour Nusselt numbers to 0, and a run of
  the last stage then has the vapour coefficient \<^verbatim>\<open>h_Zg = 0\<close> and returns the liquid and
  film terms alone; this holds for every input.  On valid inputs the run does return:
  the vapour formulas are not evaluated and \<^verbatim>\<open>turbulent_Gnielinski\<close> is not called on the
  vapour, so the function \<open>gn\<close> need only return on the liquid arguments and may fail
  anywhere else.  The friction factors \<^verbatim>\<open>fg\<close> and \<^verbatim>\<open>fl\<close> are computed before the test for
  both phases; their own singularity \<open>1.82 log\<^sub>1\<^sub>0 Re = 1.64\<close> is excluded.
\<close>

theorem dry_zone_zero_skips_vapor_terms:
  assumes "cyc_Ldry c = 0"
  shows "(\<forall>n. Thome_Nusselt gn D mul mug kl kg Cpl Cpg c = Inr n \<longrightarrow>
            Nu_lam_Zg n = 0 \<and> Nu_trans_Zg n = 0
            \<and> (\<forall>k. Thome_coeffs D kl kg c n = Inr k \<longrightarrow>
                  h_Zg k = 0
                  \<and> h_ret k = cyc_tl c / cyc_tau c * h_Zl k
                               + cyc_t_film c / cyc_tau c * h_film k))
    \<and> (0 < m \<and> 0 < x \<and> x < 1 \<and> 0 < D \<and> 0 < rhol \<and> 0 < rhog \<and> 0 < mul \<and> 0 < mug
        \<and> 0 < Hvap \<and> 0 < sigma \<and> 0 < Psat \<and> 0 < Pc \<and> 0 < q \<and> 0 < kl \<and> 0 < kg \<and> 0 < Cpl
        \<and> Thome_cycle m x D rhol rhog mul mug Hvap sigma Psat Pc (Some q) = Inr c
        \<and> 1.82 * log 10 (cyc_Reg c) - 1.64 \<noteq> 0 \<and> 1.82 * log 10 (cyc_Rel c) - 1.64 \<noteq> 0
        \<and> gn (cyc_Rel c) (Cpl * mul / kl) (inverse ((1.82 * log 10 (cyc_Rel c) - 1.64) ^ 2))
             = Inr gl
        \<longrightarrow> (\<exists>n k. Thome_Nusselt gn D mul mug kl kg Cpl Cpg c = Inr n
              \<and> Thome_coeffs D kl kg c n = Inr k
              \<and> Thome_direct gn m x D rhol rhog mul mug kl kg Cpl Cpg Hvap sigma Psat Pc
                    (Some q) = Inr (h_ret k)))"
proof (intro conjI allI impI)
  fix n
  assume n: "Thome_Nusselt gn D mul mug kl kg Cpl Cpg c = Inr n"
  show "Nu_lam_Zg n = 0" "Nu_trans_Zg n = 0"
    using Thome_Nusselt_dry_zero[OF assms n] by simp_all
  fix k
  assume k: "Thome_coeffs D kl kg c n = Inr k"
  show "h_Zg k = 0"
    "h_ret k = cyc_tl c / cyc_tau c * h_Zl k + cyc_t_film c / cyc_tau c * h_film k"
    using Thome_Nusselt_dry_zero[OF assms n] Thome_coeffs_dry_zero[OF _ _ k] by simp_all
next
  assume v: "0 < m \<and> 0 < x \<and> x < 1 \<and> 0 < D \<and> 0 < rhol \<and> 0 < rhog \<and> 0 < mul \<and> 0 < mug
        \<and> 0 < Hvap \<and> 0 < sigma \<and> 0 < Psat \<and> 0 < Pc \<and> 0 < q \<and> 0 < kl \<and> 0 < kg \<and> 0 < Cpl
        \<and> Thome_cycle m x D rhol rhog mul mug Hvap sigma Psat Pc (Some q) = Inr c
        \<and> 1.82 * log 10 (cyc_Reg c) - 1.64 \<noteq> 0 \<and> 1.82 * log 10 (cyc_Rel c) - 1.64 \<noteq> 0
        \<and> gn (cyc_Rel c) (Cpl * mul / kl) (inverse ((1.82 * log 10 (cyc_Rel c) - 1.64) ^ 2))
             = Inr gl"
  then have gl: "gn (cyc_Rel c) (Cpl * mul / kl)
      (inverse ((1.82 * log 10 (cyc_Rel c) - 1.64) ^ 2)) = Inr gl"
    by blast
  show "\<exists>n k. Thome_Nusselt gn D mul mug kl kg Cpl Cpg c = Inr n
              \<and> Thome_coeffs D kl kg c n = Inr k
              \<and> Thome_direct gn m x D rhol rhog mul mug kl kg Cpl Cpg Hvap sigma Psat Pc
                    (Some q) = Inr (h_ret k)"
    using Thome_wet_cycle[where gn = gn and gl = gl and Cpg = Cpg and m = m and x = x
        and D = D and rhol = rhol and rhog = rhog and mul = mul and mug = mug and Hvap = Hvap
        and sigma = sigma and Psat = Psat and Pc = Pc and q = q and kl = kl and kg = kg
        and Cpl = Cpl and c = c] v assms gl
    by blast
qed

section \<open>The documented example and a thin-film input\<close>

text \<open>
  Rational bounds on powers with a rational exponent: \<open>c \<le> a\<^sup>p\<^sup>/\<^sup>q\<close> follows from
  \<open>c\<^sup>q \<le> a\<^sup>p\<close>.  They evaluate the cycle at the example of the docstring,
  \<^verbatim>\<open>Thome(m=1, x=0.4, D=0.3, rhol=567., rhog=18.09, kl=0.086, kg=0.2, mul=156E-6, mug=1E-5,
  Cpl=2300, Cpg=1400, sigma=0.02, Hvap=9E5, Psat=1E5, Pc=22E6, q=1E5)\<close>, where the film
  outlives the vapour period.
\<close>

lemma powr_ratio_ge:
  fixes a c :: real
  assumes "0 < c" "0 < a" "0 < q" "c ^ q \<le> a ^ p"
  shows "c \<le> a powr (real p / real q)"
proof -
  have "c = (c powr real q) powr (1 / real q)"
    using assms(1,3) by (simp add: powr_powr)
  also have "\<dots> = (c ^ q) powr (1 / real q)"
    using assms(1) by (simp add: powr_realpow)
  also have "\<dots> \<le> (a ^ p) powr (1 / real q)"
    using assms by (intro powr_mono2) simp_all
  also have "\<dots> = (a powr real p) powr (1 / real q)"
    using assms(2) by (simp add: powr_realpow)
  also have "\<dots> = a powr (real p / real q)"
    by (simp add: powr_powr)
  finally show ?thesis .
qed

lemma powr_ratio_le:
  fixes a c :: real
  assumes "0 < c" "0 < a" "0 < q" "a ^ p \<le> c ^ q"
  shows "a powr (real p / real q) \<le> c"
proof -
  have "a powr (real p / real q) = (a powr real p) powr (1 / real q)"
    by (simp add: powr_powr)
  also have "\<dots> = (a ^ p) powr (1 / real q)"
    using assms(2) by (simp add: powr_realpow)
  also have "\<dots> \<le> (c ^ q) powr (1 / real q)"
    using assms by (intro powr_mono2) simp_all
  also have "\<dots> = (c powr real q) powr (1 / real q)"
    using assms(1) by (simp add: powr_realpow)
  also have "\<dots> = c"
    using assms(1,3) by (simp add: powr_powr)
  finally show ?thesis .
qed

lemma example_velocity:
  "1 / 4 < pair_velocity 1 0.4 0.3 567 18.09" "pair_velocity 1 0.4 0.3 567 18.09 < 515 / 1000"
proof -
  have G1: "100 / 9 < mass_flux 1 0.3"
    unfolding mass_flux_def using pi_less_4 pi_gt_zero by (simp add: field_simps)
  have G2: "mass_flux 1 0.3 \<le> 200 / 9"
    unfolding mass_flux_def using pi_ge_two by (simp add: field_simps)
  show "1 / 4 < pair_velocity 1 0.4 0.3 567 18.09"
    unfolding pair_velocity_def using G1 by simp
  show "pair_velocity 1 0.4 0.3 567 18.09 < 515 / 1000"
    unfolding pair_velocity_def using G2 by simp
qed


lemma example_film_thickness:
  "736 / 10 ^ 7 \<le> initial_film 1 0.4 0.3 567 18.09 (156 / 10 ^ 6) 0.02"
proof -
  define vp where "vp = pair_velocity 1 0.4 0.3 567 18.09"
  have vp: "1 / 4 < vp" "vp < 515 / 1000"
    unfolding vp_def by (rule example_velocity)+
  define Bo where "Bo = 567 * 0.3 / 0.02 * vp ^ 2"
  have "(1 / 4) ^ 2 < vp ^ 2"
    using vp(1) by (intro power_strict_mono) simp_all
  then have "1 / 16 < vp ^ 2" by (simp add: power_divide)
  then have Bo: "16 \<le> Bo" unfolding Bo_def by simp
  have "(2::real) \<le> 16 powr (real 1 / real 4)"
    by (rule powr_ratio_ge) (simp_all add: power_divide)
  also have "\<dots> \<le> 16 powr 0.41"
    by (intro powr_mono) simp_all
  also have "\<dots> \<le> Bo powr 0.41"
    using Bo by (intro powr_mono2) simp_all
  finally have b: "2 \<le> Bo powr 0.41" .
  define a where "a = inverse ((0.07 * Bo powr 0.41) ^ 8)"
  have "(0.1::real) ^ 8 \<le> (0.07 * Bo powr 0.41) ^ 8"
    using b by (intro power_mono) simp_all
  then have "a \<le> inverse ((0.1::real) ^ 8)"
    unfolding a_def by (intro le_imp_inverse_le) simp_all
  then have a: "a \<le> 10 ^ 8" by (simp add: power_divide)
  have a0: "0 \<le> a" unfolding a_def by simp
  define w where "w = (a + inverse ((0.1::real) ^ 8)) powr (- 1 / 8)"
  have "((100 / 9 :: real) ^ 8) powr (- 1 / 8) \<le> w"
    unfolding w_def using a a0 by (intro powr_mono2') (simp_all add: power_divide)
  moreover have "((100 / 9 :: real) ^ 8) powr (- 1 / 8) = 9 / 100"
  proof -
    have "((100 / 9 :: real) ^ 8) powr (- 1 / 8) = ((100 / 9) powr 8) powr (- 1 / 8)"
      by simp
    also have "\<dots> = (100 / 9) powr (- 1)"
      by (simp only: powr_powr) simp
    also have "\<dots> = 9 / 100"
      by (simp add: powr_minus)
    finally show ?thesis .
  qed
  ultimately have w: "9 / 100 \<le> w" by simp
  define u where "u = 156 / 10 ^ 6 / 567 / vp / 0.3"
  have u0: "0 < u" unfolding u_def using vp by simp
  have "169 / 10 ^ 8 \<le> u"
    unfolding u_def using vp by (simp add: field_simps)
  then have "(13 / 10 ^ 4 :: real) \<le> u powr (real 1 / real 2)"
    using u0 by (intro powr_ratio_ge) (simp_all add: power_divide)
  then have s: "39 / 10 ^ 4 \<le> 3 * u powr 0.5" by simp
  define y where "y = (3 * u powr 0.5) powr 0.84"
  have "(94 / 10 ^ 4 :: real) \<le> (39 / 10 ^ 4) powr (real 21 / real 25)"
    by (rule powr_ratio_ge) (simp_all add: power_divide)
  also have "\<dots> = (39 / 10 ^ 4) powr 0.84" by simp
  also have "\<dots> \<le> y"
    unfolding y_def using s by (intro powr_mono2) simp_all
  finally have y: "94 / 10 ^ 4 \<le> y" .
  have mono: "0.3 * 0.29 * (94 / 10 ^ 4) * (9 / 100) \<le> 0.3 * 0.29 * y * w"
    using y w by (intro mult_mono) simp_all
  have lb: "(736 / 10 ^ 7 :: real) \<le> 0.3 * 0.29 * (94 / 10 ^ 4) * (9 / 100)"
    by simp
  have eq: "initial_film 1 0.4 0.3 567 18.09 (156 / 10 ^ 6) 0.02 = 0.3 * 0.29 * y * w"
    unfolding initial_film_def vp_def[symmetric] y_def w_def u_def a_def Bo_def by simp
  show ?thesis
    unfolding eq using lb mono by (rule order_trans)
qed

lemma example_period:
  "pair_period 100000 22000000 100000 \<le> 10 / 31"
proof -
  have "(1 / 15 :: real) \<le> (1 / 220) powr (real 1 / real 2)"
    by (rule powr_ratio_ge) (simp_all add: power_divide)
  then have "inverse ((1 / 220 :: real) powr (1 / 2)) \<le> 15"
    using le_imp_inverse_le[of "1 / 15" "(1 / 220 :: real) powr (1 / 2)"] by simp
  then have qref: "3328 * (100000 / 22000000 :: real) powr (- 0.5) \<le> 50000"
    by (simp add: powr_minus)
  have qpos: "0 < 3328 * (100000 / 22000000 :: real) powr (- 0.5)" by simp
  have q2: "2 \<le> 100000 / (3328 * (100000 / 22000000 :: real) powr (- 0.5))"
    using qref qpos by (simp add: field_simps)
  have "(31 / 10 :: real) \<le> 2 powr (real 5 / real 3)"
    by (rule powr_ratio_ge) (simp_all add: power_divide)
  also have "\<dots> \<le> 2 powr 1.74"
    by (intro powr_mono) simp_all
  also have "\<dots> \<le> (100000 / (3328 * (100000 / 22000000 :: real) powr (- 0.5))) powr 1.74"
    using q2 by (intro powr_mono2) simp_all
  finally have "31 / 10 \<le> (100000 / (3328 * (100000 / 22000000 :: real) powr (- 0.5))) powr 1.74" .
  then show ?thesis
    unfolding pair_period_def by (simp add: field_simps)
qed

lemma example_film_survives:
  "vapor_time 100000 22000000 100000 0.4 567 18.09
     < film_drying_time 1 0.4 0.3 567 18.09 (156 / 10 ^ 6) 900000 0.02 100000"
proof -
  have tau: "0 < pair_period 100000 22000000 100000"
    by (rule pair_period_pos) simp_all
  have "vapor_time 100000 22000000 100000 0.4 567 18.09 \<le> pair_period 100000 22000000 100000"
    unfolding vapor_time_def using tau by (simp add: field_simps)
  also have "\<dots> \<le> 10 / 31" by (rule example_period)
  also have "\<dots> < 567 * 900000 / 100000 * (736 / 10 ^ 7 - C_delta0)"
    by (simp add: C_delta0_def)
  also have "\<dots> \<le> film_drying_time 1 0.4 0.3 567 18.09 (156 / 10 ^ 6) 900000 0.02 100000"
    unfolding film_drying_time_def using example_film_thickness
    by (intro mult_left_mono) simp_all
  finally show ?thesis .
qed
lemma example_Reynolds:
  "1.82 * log 10 (mass_flux 1 0.3 * 0.3 * 0.4 / (1 / 10 ^ 5)) - 1.64 \<noteq> 0"
  "1.82 * log 10 (mass_flux 1 0.3 * 0.3 * (1 - 0.4) / (156 / 10 ^ 6)) - 1.64 \<noteq> 0"
proof -
  have G: "100 / 9 < mass_flux 1 0.3"
    unfolding mass_flux_def using pi_less_4 pi_gt_zero by (simp add: field_simps)
  have "10 < mass_flux 1 0.3 * 0.3 * 0.4 / (1 / 10 ^ 5)" using G by simp
  then have "1 < log 10 (mass_flux 1 0.3 * 0.3 * 0.4 / (1 / 10 ^ 5))" by simp
  then show "1.82 * log 10 (mass_flux 1 0.3 * 0.3 * 0.4 / (1 / 10 ^ 5)) - 1.64 \<noteq> 0"
    by simp
  have "10 < mass_flux 1 0.3 * 0.3 * (1 - 0.4) / (156 / 10 ^ 6)" using G by simp
  then have "1 < log 10 (mass_flux 1 0.3 * 0.3 * (1 - 0.4) / (156 / 10 ^ 6))" by simp
  then show "1.82 * log 10 (mass_flux 1 0.3 * 0.3 * (1 - 0.4) / (156 / 10 ^ 6)) - 1.64 \<noteq> 0"
    by simp
qed

lemma turbulent_Gnielinski_returns:
  assumes "1 \<le> Pr" "0 \<le> fd"
  shows "\<exists>gl. turbulent_Gnielinski Rey Pr fd = Inr gl"
proof -
  have "1 \<le> Pr powr (2 / 3)"
    using assms(1) by (intro ge_one_powr_ge_zero) simp_all
  then have "0 \<le> 12.7 * (fd / 8) powr 0.5 * (Pr powr (2 / 3) - 1)"
    by (intro mult_nonneg_nonneg) simp_all
  then have "1 + 12.7 * (fd / 8) powr 0.5 * (Pr powr (2 / 3) - 1) \<noteq> 0"
    by linarith
  then show ?thesis
    using assms unfolding turbulent_Gnielinski_def by simp
qed

lemma example_direct:
  "\<exists>c n k.
     Thome_cycle 1 0.4 0.3 567 18.09 (156 / 10 ^ 6) (1 / 10 ^ 5) 900000 0.02 100000 22000000
       (Some 100000) = Inr c
     \<and> cyc_tv c < cyc_t_dry_film c \<and> cyc_Ldry c = 0
     \<and> 1.82 * log 10 (cyc_Reg c) - 1.64 \<noteq> 0 \<and> 1.82 * log 10 (cyc_Rel c) - 1.64 \<noteq> 0
     \<and> (\<exists>gl. turbulent_Gnielinski (cyc_Rel c) (2300 * (156 / 10 ^ 6) / 0.086)
                (inverse ((1.82 * log 10 (cyc_Rel c) - 1.64) ^ 2)) = Inr gl)
     \<and> Thome_Nusselt turbulent_Gnielinski 0.3 (156 / 10 ^ 6) (1 / 10 ^ 5) 0.086 0.2 2300 1400 c
         = Inr n
     \<and> Thome_coeffs 0.3 0.086 0.2 c n = Inr k
     \<and> Thome_direct turbulent_Gnielinski 1 0.4 0.3 567 18.09 (156 / 10 ^ 6) (1 / 10 ^ 5) 0.086
         0.2 2300 1400 900000 0.02 100000 22000000 (Some 100000) = Inr (h_ret k)"
proof -
  obtain c where c:
    "Thome_cycle 1 0.4 0.3 567 18.09 (156 / 10 ^ 6) (1 / 10 ^ 5) 900000 0.02 100000 22000000
       (Some 100000) = Inr c"
    "cyc_Rel c = mass_flux 1 0.3 * 0.3 * (1 - 0.4) / (156 / 10 ^ 6)"
    "cyc_Reg c = mass_flux 1 0.3 * 0.3 * 0.4 / (1 / 10 ^ 5)"
    "cyc_tv c = vapor_time 100000 22000000 100000 0.4 567 18.09"
    "cyc_t_dry_film c = film_drying_time 1 0.4 0.3 567 18.09 (156 / 10 ^ 6) 900000 0.02 100000"
    "cyc_Ldry c = (if film_drying_time 1 0.4 0.3 567 18.09 (156 / 10 ^ 6) 900000 0.02 100000
                      > vapor_time 100000 22000000 100000 0.4 567 18.09 then 0
                   else vapor_time 100000 22000000 100000 0.4 567 18.09
                      - film_drying_time 1 0.4 0.3 567 18.09 (156 / 10 ^ 6) 900000 0.02 100000)
                  * pair_velocity 1 0.4 0.3 567 18.09"
    using Thome_cycle_valid[of 1 "0.4" "0.3" 567 "18.09" "156 / 10 ^ 6" "1 / 10 ^ 5" 900000 "0.02"
        100000 22000000 100000]
    by auto
  have surv: "cyc_tv c < cyc_t_dry_film c"
    unfolding c(4,5) by (rule example_film_survives)
  have dry: "cyc_Ldry c = 0"
    unfolding c(6) using example_film_survives by simp
  have logs: "1.82 * log 10 (cyc_Reg c) - 1.64 \<noteq> 0" "1.82 * log 10 (cyc_Rel c) - 1.64 \<noteq> 0"
    unfolding c(2,3) by (rule example_Reynolds)+
  obtain gl where gl: "turbulent_Gnielinski (cyc_Rel c) (2300 * (156 / 10 ^ 6) / 0.086)
                (inverse ((1.82 * log 10 (cyc_Rel c) - 1.64) ^ 2)) = Inr gl"
    using turbulent_Gnielinski_returns[of "2300 * (156 / 10 ^ 6) / 0.086"
        "inverse ((1.82 * log 10 (cyc_Rel c) - 1.64) ^ 2)" "cyc_Rel c"]
    by auto
  obtain n k where nk:
    "Thome_Nusselt turbulent_Gnielinski 0.3 (156 / 10 ^ 6) (1 / 10 ^ 5) 0.086 0.2 2300 1400 c
       = Inr n"
    "Thome_coeffs 0.3 0.086 0.2 c n = Inr k"
    "Thome_direct turbulent_Gnielinski 1 0.4 0.3 567 18.09 (156 / 10 ^ 6) (1 / 10 ^ 5) 0.086
         0.2 2300 1400 900000 0.02 100000 22000000 (Some 100000) = Inr (h_ret k)"
    using Thome_wet_cycle[where gn = turbulent_Gnielinski and gl = gl and Cpg = 1400
        and kg = "0.2" and kl = "0.086" and Cpl = 2300, OF _ _ _ _ _ _ _ _ _ _ _ _ _ _ _ _ c(1) dry logs gl]
    by auto
  show ?thesis
    using c(1) surv dry logs gl nk by blast
qed

lemma thin_film_example:
  "initial_film (1 / 10 ^ 8) 0.4 (1 / 10 ^ 5) 567 18.09 (156 / 10 ^ 6) 0.02 < C_delta0"
proof -
  define vp where "vp = pair_velocity (1 / 10 ^ 8) 0.4 (1 / 10 ^ 5) 567 18.09"
  have G: "100 < mass_flux (1 / 10 ^ 8) (1 / 10 ^ 5)"
    unfolding mass_flux_def using pi_less_4 pi_gt_zero by (simp add: field_simps power_divide)
  have vp: "2 < vp"
    unfolding vp_def pair_velocity_def using G by simp
  define Bo where "Bo = 567 * (1 / 10 ^ 5) / 0.02 * vp ^ 2"
  define a where "a = inverse ((0.07 * Bo powr 0.41) ^ 8)"
  have a0: "0 \<le> a" unfolding a_def by simp
  define w where "w = (a + inverse ((0.1::real) ^ 8)) powr (- 1 / 8)"
  have "w \<le> ((10::real) ^ 8) powr (- 1 / 8)"
    unfolding w_def using a0 by (intro powr_mono2') (simp_all add: power_divide)
  moreover have "((10::real) ^ 8) powr (- 1 / 8) = 1 / 10"
  proof -
    have "((10::real) ^ 8) powr (- 1 / 8) = (10 powr 8) powr (- 1 / 8)" by simp
    also have "\<dots> = 10 powr (- 1)" by (simp only: powr_powr) simp
    also have "\<dots> = 1 / 10" by (simp add: powr_minus)
    finally show ?thesis .
  qed
  ultimately have w: "w \<le> 1 / 10" by simp
  have w0: "0 \<le> w" unfolding w_def by simp
  define u where "u = 156 / 10 ^ 6 / 567 / vp / (1 / 10 ^ 5)"
  have u0: "0 < u" unfolding u_def using vp by simp
  have "u \<le> 1 / 9"
    unfolding u_def using vp by (simp add: field_simps)
  then have "u powr (real 1 / real 2) \<le> 1 / 3"
    using u0 by (intro powr_ratio_le) (simp_all add: power_divide)
  then have s: "3 * u powr 0.5 \<le> 1" by simp
  define y where "y = (3 * u powr 0.5) powr 0.84"
  have y: "y \<le> 1"
    unfolding y_def using s by (intro powr_le1) simp_all
  have y0: "0 \<le> y" unfolding y_def by simp
  have "y * w \<le> 1 * (1 / 10)"
    using y w y0 w0 by (intro mult_mono) simp_all
  then have "1 / 10 ^ 5 * 0.29 * (y * w) \<le> 1 / 10 ^ 5 * 0.29 * (1 * (1 / 10))"
    by (intro mult_left_mono) simp_all
  moreover have "initial_film (1 / 10 ^ 8) 0.4 (1 / 10 ^ 5) 567 18.09 (156 / 10 ^ 6) 0.02
      = 1 / 10 ^ 5 * 0.29 * (y * w)"
    unfolding initial_film_def vp_def[symmetric] y_def w_def u_def a_def Bo_def by simp
  moreover have "1 / 10 ^ 5 * 0.29 * (1 * (1 / 10)) < C_delta0"
    by (simp add: C_delta0_def)
  ultimately show ?thesis by linarith
qed

section \<open>The jump of \<^verbatim>\<open>Aggour\<close> at a liquid Reynolds number of 2000\<close>

text \<open>
  The two formulas of \<^verbatim>\<open>Aggour\<close> do not meet at the threshold.  For a tube of unit
  diameter and length 2000 carrying a liquid of unit properties, with no vapour, the mass
  flow \<open>500 \<pi>\<close> gives \<open>Rel = 2000\<close> and the laminar value 1.615, while every larger mass
  flow gives a coefficient above 4.
\<close>

lemma Aggour_jump_at_2000:
  "Aggour (500 * pi) 0 0 1 1 1 1 1 None (Some 2000) None = Inr 1.615
   \<and> (\<forall>m. 500 * pi < m \<longrightarrow>
        (\<exists>h. Aggour m 0 0 1 1 1 1 1 None (Some 2000) None = Inr h \<and> 4 < h))"
proof (intro conjI allI impI)
  have "Aggour_Rel (500 * pi) 0 0 1 1 1 1 1 = Inr (1, 2000)"
    by (simp add: Aggour_Rel_def Prandtl_def Reynolds_def)
  then show "Aggour (500 * pi) 0 0 1 1 1 1 1 None (Some 2000) None = Inr 1.615"
    by (simp add: Aggour_def)
next
  fix m :: real
  assume m: "500 * pi < m"
  define Rel where "Rel = 4 * m / pi"
  have big: "2000 < Rel"
    unfolding Rel_def using m by (simp add: pos_less_divide_eq)
  have pre: "Aggour_Rel m 0 0 1 1 1 1 1 = Inr (1, Rel)"
    using m by (simp add: Aggour_Rel_def Prandtl_def Reynolds_def Rel_def)
  have val: "Aggour m 0 0 1 1 1 1 1 None (Some 2000) None = Inr (0.0155 * Rel powr 0.83)"
    using pre big by (simp add: Aggour_def)
  have "(259::real) \<le> 2000 powr (real 3 / real 4)"
    by (rule powr_ratio_ge) simp_all
  also have "\<dots> \<le> 2000 powr 0.83"
    by (intro powr_mono) simp_all
  also have "\<dots> \<le> Rel powr 0.83"
    using big by (intro powr_mono2) simp_all
  finally have "4 < 0.0155 * Rel powr 0.83"
    by simp
  with val show "\<exists>h. Aggour m 0 0 1 1 1 1 1 None (Some 2000) None = Inr h \<and> 4 < h"
    by blast
qed

section \<open>The film coefficient, the phase durations and the dry zone\<close>

theorem dry_zone_zero_skips_vapor_terms_witness:
  "\<exists>c n k.
     Thome_cycle 1 0.4 0.3 567 18.09 (156 / 10 ^ 6) (1 / 10 ^ 5) 900000 0.02 100000 22000000
       (Some 100000) = Inr c
     \<and> cyc_Ldry c = 0
     \<and> Thome_Nusselt turbulent_Gnielinski 0.3 (156 / 10 ^ 6) (1 / 10 ^ 5) 0.086 0.2 2300 1400 c
         = Inr n
     \<and> Nu_lam_Zg n = 0 \<and> Nu_trans_Zg n = 0
     \<and> Thome_coeffs 0.3 0.086 0.2 c n = Inr k \<and> h_Zg k = 0
     \<and> h_ret k = cyc_tl c / cyc_tau c * h_Zl k + cyc_t_film c / cyc_tau c * h_film k
     \<and> Thome_direct turbulent_Gnielinski 1 0.4 0.3 567 18.09 (156 / 10 ^ 6) (1 / 10 ^ 5) 0.086
         0.2 2300 1400 900000 0.02 100000 22000000 (Some 100000) = Inr (h_ret k)"
proof -
  obtain c gl where c:
    "Thome_cycle 1 0.4 0.3 567 18.09 (156 / 10 ^ 6) (1 / 10 ^ 5) 900000 0.02 100000 22000000
       (Some 100000) = Inr c"
    "cyc_Ldry c = 0"
    "1.82 * log 10 (cyc_Reg c) - 1.64 \<noteq> 0" "1.82 * log 10 (cyc_Rel c) - 1.64 \<noteq> 0"
    "turbulent_Gnielinski (cyc_Rel c) (2300 * (156 / 10 ^ 6) / 0.086)
                (inverse ((1.82 * log 10 (cyc_Rel c) - 1.64) ^ 2)) = Inr gl"
    using example_direct by blast
  note inst = dry_zone_zero_skips_vapor_terms[OF c(2), where gn = turbulent_Gnielinski
      and gl = gl and Cpg = 1400 and kg = "0.2" and kl = "0.086" and Cpl = 2300 and m = 1
      and x = "0.4" and D = "0.3" and rhol = 567 and rhog = "18.09" and mul = "156 / 10 ^ 6"
      and mug = "1 / 10 ^ 5" and Hvap = 900000 and sigma = "0.02" and Psat = 100000
      and Pc = 22000000 and q = 100000]
  obtain n k where nk:
    "Thome_Nusselt turbulent_Gnielinski 0.3 (156 / 10 ^ 6) (1 / 10 ^ 5) 0.086 0.2 2300 1400 c
       = Inr n"
    "Thome_coeffs 0.3 0.086 0.2 c n = Inr k"
    "Thome_direct turbulent_Gnielinski 1 0.4 0.3 567 18.09 (156 / 10 ^ 6) (1 / 10 ^ 5) 0.086
         0.2 2300 1400 900000 0.02 100000 22000000 (Some 100000) = Inr (h_ret k)"
    using inst c(1,3,4,5) by auto
  have "Nu_lam_Zg n = 0 \<and> Nu_trans_Zg n = 0 \<and> h_Zg k = 0
      \<and> h_ret k = cyc_tl c / cyc_tau c * h_Zl k + cyc_t_film c / cyc_tau c * h_film k"
    using inst nk(1,2) by blast
  then show ?thesis
    using c(1,2) nk by blast
qed

text \<open>
  Claim C1, as amended.  On every valid heat-flux call the film coefficient is
  \<open>2 kl / (\<delta>\<^sub>0 + \<delta>\<^sub>m\<^sub>i\<^sub>n)\<close> with \<open>\<delta>\<^sub>m\<^sub>i\<^sub>n = 0.3 \<mu>m\<close>, in both branches of the dry-out
  decision, as the docstring writes it.  The end-of-cycle thickness \<^verbatim>\<open>delta_end\<close> is
  computed (\<open>\<delta>\<^sub>m\<^sub>i\<^sub>n\<close> when the film dries out, \<open>\<delta>\<^sub>0 - q/(rhol Hvap) t\<^sub>v\<close> when it
  survives, and then larger than \<open>\<delta>\<^sub>m\<^sub>i\<^sub>n\<close>) but does not enter the coefficient: the
  coefficient is \<open>2 kl / (\<delta>\<^sub>0 + delta_end)\<close> when the film dries out, and is larger than
  that when the film survives.
\<close>

theorem film_coefficient_uses_minimum_thickness:
  assumes "0 < m" "0 < x" "x < 1" "0 < D" "0 < rhol" "0 < rhog" "0 < mul" "0 < mug"
    "0 < Hvap" "0 < sigma" "0 < Psat" "0 < Pc" "0 < q" "0 < kl"
  shows "\<exists>c. Thome_cycle m x D rhol rhog mul mug Hvap sigma Psat Pc (Some q) = Inr c
    \<and> cyc_delta_end c = (if cyc_t_dry_film c > cyc_tv c
                          then cyc_delta0 c - q / rhol / Hvap * cyc_tv c else C_delta0)
    \<and> (\<forall>n. \<exists>k. Thome_coeffs D kl kg c n = Inr k
          \<and> h_film k = 2 * kl / (cyc_delta0 c + C_delta0)
          \<and> (if cyc_t_dry_film c > cyc_tv c
              then C_delta0 < cyc_delta_end c
                   \<and> 2 * kl / (cyc_delta0 c + cyc_delta_end c) < h_film k
              else h_film k = 2 * kl / (cyc_delta0 c + cyc_delta_end c)))"
proof -
  obtain c where c:
    "Thome_cycle m x D rhol rhog mul mug Hvap sigma Psat Pc (Some q) = Inr c"
    "cyc_tau c = pair_period Psat Pc q"
    "cyc_delta0 c = initial_film m x D rhol rhog mul sigma"
    "cyc_tv c = vapor_time Psat Pc q x rhol rhog"
    "cyc_t_dry_film c = film_drying_time m x D rhol rhog mul Hvap sigma q"
    "cyc_delta_end c = (if film_drying_time m x D rhol rhog mul Hvap sigma q
                             > vapor_time Psat Pc q x rhol rhog
                        then initial_film m x D rhol rhog mul sigma
                             - q / rhol / Hvap * vapor_time Psat Pc q x rhol rhog
                        else C_delta0)"
    using Thome_cycle_valid[OF assms(1-13)] by blast
  have tau: "cyc_tau c \<noteq> 0"
    using c(2) pair_period_pos[OF assms(11-13)] by simp
  have d0: "0 < cyc_delta0 c"
    using c(3) initial_film_pos[OF assms(1-7) assms(10)] by simp
  have C: "0 < C_delta0" by (simp add: C_delta0_def)
  have de: "cyc_delta_end c = (if cyc_t_dry_film c > cyc_tv c
                          then cyc_delta0 c - q / rhol / Hvap * cyc_tv c else C_delta0)"
    unfolding c(3,4,5,6) by simp
  have surv: "C_delta0 < cyc_delta_end c" if "cyc_t_dry_film c > cyc_tv c"
  proof -
    have "cyc_tv c < rhol * Hvap / q * (cyc_delta0 c - C_delta0)"
      using that unfolding c(5) film_drying_time_def c(3) by simp
    then have "q / rhol / Hvap * cyc_tv c < cyc_delta0 c - C_delta0"
      using assms(5,9,13) by (simp add: field_simps)
    then show ?thesis using de that by simp
  qed
  have film: "\<exists>k. Thome_coeffs D kl kg c n = Inr k
          \<and> h_film k = 2 * kl / (cyc_delta0 c + C_delta0)
          \<and> (if cyc_t_dry_film c > cyc_tv c
              then C_delta0 < cyc_delta_end c
                   \<and> 2 * kl / (cyc_delta0 c + cyc_delta_end c) < h_film k
              else h_film k = 2 * kl / (cyc_delta0 c + cyc_delta_end c))" for n
  proof -
    have nz: "cyc_delta0 c + C_delta0 \<noteq> 0" using d0 C by simp
    obtain k where k: "Thome_coeffs D kl kg c n = Inr k"
      "h_film k = 2 * kl / (cyc_delta0 c + C_delta0)"
      using Thome_coeffs_valid[of D c kl kg n] tau nz assms(4) by auto
    show ?thesis
    proof (cases "cyc_t_dry_film c > cyc_tv c")
      case True
      have "2 * kl / (cyc_delta0 c + cyc_delta_end c) < 2 * kl / (cyc_delta0 c + C_delta0)"
        using surv[OF True] d0 C assms(14)
        by (intro divide_strict_left_mono mult_pos_pos) simp_all
      then show ?thesis using k True surv[OF True] by simp
    next
      case False
      then show ?thesis using k de by simp
    qed
  qed
  show ?thesis
    using c(1) de film by blast
qed

theorem film_coefficient_uses_minimum_thickness_witness:
  "\<exists>c. Thome_cycle 1 0.4 0.3 567 18.09 (156 / 10 ^ 6) (1 / 10 ^ 5) 900000 0.02 100000 22000000
         (Some 100000) = Inr c
    \<and> cyc_delta_end c = (if cyc_t_dry_film c > cyc_tv c
                          then cyc_delta0 c - 100000 / 567 / 900000 * cyc_tv c else C_delta0)
    \<and> (\<forall>n. \<exists>k. Thome_coeffs 0.3 0.086 0.2 c n = Inr k
          \<and> h_film k = 2 * 0.086 / (cyc_delta0 c + C_delta0)
          \<and> (if cyc_t_dry_film c > cyc_tv c
              then C_delta0 < cyc_delta_end c
                   \<and> 2 * 0.086 / (cyc_delta0 c + cyc_delta_end c) < h_film k
              else h_film k = 2 * 0.086 / (cyc_delta0 c + cyc_delta_end c)))"
  by (rule film_coefficient_uses_minimum_thickness) simp_all

theorem film_coefficient_counterexample:
  "case Thome_cycle 1 0.4 0.3 567 18.09 (156 / 10 ^ 6) (1 / 10 ^ 5) 900000 0.02 100000 22000000
          (Some 100000) of
     Inl e \<Rightarrow> False
   | Inr c \<Rightarrow>
      (case Thome_Nusselt turbulent_Gnielinski 0.3 (156 / 10 ^ 6) (1 / 10 ^ 5) 0.086 0.2 2300
              1400 c of
         Inl e \<Rightarrow> False
       | Inr n \<Rightarrow>
          (case Thome_coeffs 0.3 0.086 0.2 c n of
             Inl e \<Rightarrow> False
           | Inr k \<Rightarrow> cyc_tv c < cyc_t_dry_film c
                \<and> h_film k \<noteq> 2 * 0.086 / (cyc_delta0 c + cyc_delta_end c)))"
proof -
  obtain c n k where ex:
    "Thome_cycle 1 0.4 0.3 567 18.09 (156 / 10 ^ 6) (1 / 10 ^ 5) 900000 0.02 100000 22000000
       (Some 100000) = Inr c"
    "cyc_tv c < cyc_t_dry_film c"
    "Thome_Nusselt turbulent_Gnielinski 0.3 (156 / 10 ^ 6) (1 / 10 ^ 5) 0.086 0.2 2300 1400 c
       = Inr n"
    "Thome_coeffs 0.3 0.086 0.2 c n = Inr k"
    using example_direct by blast
  obtain c' where c':
    "Thome_cycle 1 0.4 0.3 567 18.09 (156 / 10 ^ 6) (1 / 10 ^ 5) 900000 0.02 100000 22000000
       (Some 100000) = Inr c'"
    "cyc_tau c' = pair_period 100000 22000000 100000"
    "cyc_delta0 c' = initial_film 1 0.4 0.3 567 18.09 (156 / 10 ^ 6) 0.02"
    "cyc_tv c' = vapor_time 100000 22000000 100000 0.4 567 18.09"
    "cyc_t_dry_film c' = film_drying_time 1 0.4 0.3 567 18.09 (156 / 10 ^ 6) 900000 0.02 100000"
    "cyc_delta_end c' = (if film_drying_time 1 0.4 0.3 567 18.09 (156 / 10 ^ 6) 900000 0.02 100000
                             > vapor_time 100000 22000000 100000 0.4 567 18.09
                        then initial_film 1 0.4 0.3 567 18.09 (156 / 10 ^ 6) 0.02
                             - 100000 / 567 / 900000 * vapor_time 100000 22000000 100000 0.4 567 18.09
                        else C_delta0)"
    using Thome_cycle_valid[of 1 "0.4" "0.3" 567 "18.09" "156 / 10 ^ 6" "1 / 10 ^ 5" 900000 "0.02"
        100000 22000000 100000]
    by auto
  have cc: "c' = c" using c'(1) ex(1) by simp
  have tau: "cyc_tau c \<noteq> 0"
    using c'(2) cc pair_period_pos[of 100000 22000000 100000] by simp
  have d0: "0 < cyc_delta0 c"
    using c'(3) cc initial_film_pos[of 1 "0.4" "0.3" 567 "18.09" "156 / 10 ^ 6" "0.02"] by simp
  have C: "0 < C_delta0" by (simp add: C_delta0_def)
  have "cyc_tv c < 567 * 900000 / 100000 * (cyc_delta0 c - C_delta0)"
    using ex(2) c'(3,5) cc by (simp add: film_drying_time_def)
  then have "100000 / 567 / 900000 * cyc_tv c < cyc_delta0 c - C_delta0"
    by (simp add: field_simps)
  moreover have "cyc_delta_end c = cyc_delta0 c - 100000 / 567 / 900000 * cyc_tv c"
    using c'(3,4,5,6) cc ex(2) by simp
  ultimately have de: "C_delta0 < cyc_delta_end c" by simp
  obtain k' where k': "Thome_coeffs 0.3 0.086 0.2 c n = Inr k'"
    "h_film k' = 2 * 0.086 / (cyc_delta0 c + C_delta0)"
    using Thome_coeffs_valid[of "0.3" c "0.086" "0.2" n] tau d0 C by auto
  have kk: "k' = k" using k'(1) ex(4) by simp
  have hk: "h_film k = 2 * 0.086 / (cyc_delta0 c + C_delta0)"
    using k'(2) unfolding kk .
  have "2 * 0.086 / (cyc_delta0 c + cyc_delta_end c) < 2 * 0.086 / (cyc_delta0 c + C_delta0)"
    using de d0 C by (intro divide_strict_left_mono mult_pos_pos) simp_all
  then have "2 * 0.086 / (cyc_delta0 c + cyc_delta_end c) < h_film k"
    unfolding hk .
  then have "h_film k \<noteq> 2 * 0.086 / (cyc_delta0 c + cyc_delta_end c)"
    by (rule less_imp_neq[THEN not_sym])
  then show ?thesis
    using ex by (simp del: divide_eq_eq eq_divide_eq)
qed
text \<open>
  Claim C2, as amended.  On every valid heat-flux call with \<open>0 < x < 1\<close> the durations
  satisfy \<open>t\<^sub>l + t\<^sub>v = \<tau>\<close> and \<open>t\<^sub>f\<^sub>i\<^sub>l\<^sub>m + t\<^sub>d\<^sub>r\<^sub>y = t\<^sub>v\<close> in both branches, hence
  \<open>t\<^sub>l + t\<^sub>f\<^sub>i\<^sub>l\<^sub>m + t\<^sub>d\<^sub>r\<^sub>y = \<tau>\<close>, and the returned coefficient is the average of the three
  phase coefficients with weights that sum to 1.  The weights of the liquid and dry
  phases are never negative; the weight of the film phase is non-negative exactly when
  the initial film is at least as thick as the minimum film, \<open>\<delta>\<^sub>0 \<ge> \<delta>\<^sub>m\<^sub>i\<^sub>n\<close>, and only then is
  the average a convex one.
\<close>

theorem cycle_durations_sum_to_period:
  assumes "0 < m" "0 < x" "x < 1" "0 < D" "0 < rhol" "0 < rhog" "0 < mul" "0 < mug"
    "0 < Hvap" "0 < sigma" "0 < Psat" "0 < Pc" "0 < q"
  shows "\<exists>c. Thome_cycle m x D rhol rhog mul mug Hvap sigma Psat Pc (Some q) = Inr c
    \<and> 0 < cyc_tau c
    \<and> cyc_tl c + cyc_tv c = cyc_tau c
    \<and> cyc_t_film c + cyc_t_dry c = cyc_tv c
    \<and> cyc_tl c + cyc_t_film c + cyc_t_dry c = cyc_tau c
    \<and> cyc_tl c / cyc_tau c + cyc_t_film c / cyc_tau c + cyc_t_dry c / cyc_tau c = 1
    \<and> 0 < cyc_tl c \<and> 0 \<le> cyc_t_dry c
    \<and> (0 \<le> cyc_t_film c) = (C_delta0 \<le> cyc_delta0 c)
    \<and> (\<forall>n. \<exists>k. Thome_coeffs D kl kg c n = Inr k
          \<and> h_ret k = cyc_tl c / cyc_tau c * h_Zl k + cyc_t_film c / cyc_tau c * h_film k
                        + cyc_t_dry c / cyc_tau c * h_Zg k)"
proof -
  define tdf where "tdf = film_drying_time m x D rhol rhog mul Hvap sigma q"
  define tv where "tv = vapor_time Psat Pc q x rhol rhog"
  obtain c where c:
    "Thome_cycle m x D rhol rhog mul mug Hvap sigma Psat Pc (Some q) = Inr c"
    "cyc_tau c = pair_period Psat Pc q"
    "cyc_delta0 c = initial_film m x D rhol rhog mul sigma"
    "cyc_tl c = liquid_time Psat Pc q x rhol rhog"
    "cyc_tv c = tv"
    "cyc_t_film c = (if tdf > tv then tv else tdf)"
    "cyc_t_dry c = (if tdf > tv then 0 else tv - tdf)"
    unfolding tdf_def tv_def using Thome_cycle_valid[OF assms(1-13)] by blast
  have tau: "0 < cyc_tau c"
    using c(2) pair_period_pos[OF assms(11-13)] by simp
  have times: "0 < cyc_tl c" "0 < tv" "cyc_tl c + tv = cyc_tau c"
    unfolding c(2,4) tv_def
    using liquid_vapor_time[OF assms(11) assms(12) assms(13) assms(2) assms(3) assms(5) assms(6)]
    by simp_all
  have d0: "0 < cyc_delta0 c"
    using c(3) initial_film_pos[OF assms(1-7) assms(10)] by simp
  have C: "0 < C_delta0" by (simp add: C_delta0_def)
  have fd: "cyc_t_film c + cyc_t_dry c = cyc_tv c"
    unfolding c(5,6,7) by simp
  have sum: "cyc_tl c + cyc_t_film c + cyc_t_dry c = cyc_tau c"
    using fd times(3) c(5) by simp
  have "(cyc_tl c + cyc_t_film c + cyc_t_dry c) / cyc_tau c = 1"
    unfolding sum using tau by simp
  then have weights: "cyc_tl c / cyc_tau c + cyc_t_film c / cyc_tau c + cyc_t_dry c / cyc_tau c = 1"
    by (simp add: add_divide_distrib)
  have dry: "0 \<le> cyc_t_dry c" unfolding c(7) by simp
  define r where "r = rhol * Hvap / q"
  have r: "0 < r" unfolding r_def using assms(5,9,13) by simp
  have "tdf = r * (cyc_delta0 c - C_delta0)"
    unfolding tdf_def film_drying_time_def c(3) r_def ..
  then have sgn: "(0 \<le> tdf) = (C_delta0 \<le> cyc_delta0 c)"
    using r by (simp add: zero_le_mult_iff)
  have film: "(0 \<le> cyc_t_film c) = (C_delta0 \<le> cyc_delta0 c)"
  proof (cases "tdf > tv")
    case True
    then have "0 \<le> tdf" using times(2) by simp
    then show ?thesis using True sgn times(2) c(6) by simp
  next
    case False
    then show ?thesis using sgn c(6) by simp
  qed
  have avg: "\<exists>k. Thome_coeffs D kl kg c n = Inr k
          \<and> h_ret k = cyc_tl c / cyc_tau c * h_Zl k + cyc_t_film c / cyc_tau c * h_film k
                        + cyc_t_dry c / cyc_tau c * h_Zg k" for n
    using Thome_coeffs_valid[of D c kl kg n] tau d0 C assms(4) by auto
  show ?thesis
    using c(1) tau times(1) times(3) c(5) fd sum weights dry film avg by blast
qed

theorem cycle_durations_sum_to_period_witness:
  "\<exists>c. Thome_cycle 1 0.4 0.3 567 18.09 (156 / 10 ^ 6) (1 / 10 ^ 5) 900000 0.02 100000 22000000
         (Some 100000) = Inr c
    \<and> 0 < cyc_tau c
    \<and> cyc_tl c + cyc_tv c = cyc_tau c
    \<and> cyc_t_film c + cyc_t_dry c = cyc_tv c
    \<and> cyc_tl c + cyc_t_film c + cyc_t_dry c = cyc_tau c
    \<and> cyc_tl c / cyc_tau c + cyc_t_film c / cyc_tau c + cyc_t_dry c / cyc_tau c = 1
    \<and> 0 < cyc_tl c \<and> 0 \<le> cyc_t_dry c
    \<and> (0 \<le> cyc_t_film c) = (C_delta0 \<le> cyc_delta0 c)
    \<and> (\<forall>n. \<exists>k. Thome_coeffs 0.3 0.086 0.2 c n = Inr k
          \<and> h_ret k = cyc_tl c / cyc_tau c * h_Zl k + cyc_t_film c / cyc_tau c * h_film k
                        + cyc_t_dry c / cyc_tau c * h_Zg k)"
  by (rule cycle_durations_sum_to_period) simp_all

theorem negative_film_weight_counterexample:
  "case Thome_cycle (1 / 10 ^ 8) 0.4 (1 / 10 ^ 5) 567 18.09 (156 / 10 ^ 6) (1 / 10 ^ 5) 900000
          0.02 100000 22000000 (Some 100000) of
     Inl e \<Rightarrow> False
   | Inr c \<Rightarrow> cyc_t_film c / cyc_tau c < 0 \<and> 0 < cyc_tau c"
proof -
  define tdf where
    "tdf = film_drying_time (1 / 10 ^ 8) 0.4 (1 / 10 ^ 5) 567 18.09 (156 / 10 ^ 6) 900000 0.02 100000"
  define tv where "tv = vapor_time 100000 22000000 100000 0.4 567 18.09"
  obtain c where c:
    "Thome_cycle (1 / 10 ^ 8) 0.4 (1 / 10 ^ 5) 567 18.09 (156 / 10 ^ 6) (1 / 10 ^ 5) 900000
          0.02 100000 22000000 (Some 100000) = Inr c"
    "cyc_tau c = pair_period 100000 22000000 100000"
    "cyc_t_film c = (if tdf > tv then tv else tdf)"
    unfolding tdf_def tv_def
    using Thome_cycle_valid[of "1 / 10 ^ 8" "0.4" "1 / 10 ^ 5" 567 "18.09" "156 / 10 ^ 6"
        "1 / 10 ^ 5" 900000 "0.02" 100000 22000000 100000]
    by auto
  have tau: "0 < cyc_tau c"
    using c(2) pair_period_pos[of 100000 22000000 100000] by simp
  have tv: "0 < tv"
    unfolding tv_def using liquid_vapor_time(2)[of 100000 22000000 100000 "0.4" 567 "18.09"]
    by simp
  have "tdf = 567 * 900000 / 100000
      * (initial_film (1 / 10 ^ 8) 0.4 (1 / 10 ^ 5) 567 18.09 (156 / 10 ^ 6) 0.02 - C_delta0)"
    unfolding tdf_def film_drying_time_def by simp
  then have tdf: "tdf < 0"
    using thin_film_example by (simp add: mult_less_0_iff)
  have "cyc_t_film c = tdf" using c(3) tdf tv by simp
  then have "cyc_t_film c / cyc_tau c < 0"
    using tdf tau by (simp add: divide_neg_pos)
  then show ?thesis
    using c(1) tau by simp
qed

text \<open>
  \<^verbatim>\<open>Thome\<close> is the exception to claim C7: with \<^verbatim>\<open>q = 0\<close> it fails both guards and runs
  the heat-flux body, which fails at \<^verbatim>\<open>tau = 1./fopt\<close> with \<open>fopt = 0\<close>.
\<close>

lemma Thome_zero_heat_flux:
  assumes "D \<noteq> 0" "mul \<noteq> 0" "mug \<noteq> 0" "Pc \<noteq> 0" "0 < Psat / Pc"
  shows "Thome fsolve gn m x D rhol rhog mul mug kl kg Cpl Cpg Hvap sigma Psat Pc (Some 0) Te
           = Inl ZeroDivisionError"
proof -
  have "Psat \<noteq> 0" using assms(5) by auto
  then show ?thesis
    using assms by (simp add: Thome_def Thome_direct_def Thome_cycle_def)
qed

theorem Thome_zero_heat_flux_counterexample:
  "Thome (\<lambda>f q0. Inr 100000) turbulent_Gnielinski 1 0.4 0.3 567 18.09 (156 / 10 ^ 6) (1 / 10 ^ 5)
      0.086 0.2 2300 1400 900000 0.02 100000 22000000 (Some 0) (Some 60)
     = Inl ZeroDivisionError
   \<and> \<not> isl (Thome (\<lambda>f q0. Inr 100000) turbulent_Gnielinski 1 0.4 0.3 567 18.09 (156 / 10 ^ 6)
        (1 / 10 ^ 5) 0.086 0.2 2300 1400 900000 0.02 100000 22000000 None (Some 60))"
proof -
  obtain k :: thome_coeffs where k:
    "Thome_direct turbulent_Gnielinski 1 0.4 0.3 567 18.09 (156 / 10 ^ 6) (1 / 10 ^ 5) 0.086
         0.2 2300 1400 900000 0.02 100000 22000000 (Some 100000) = Inr (h_ret k)"
    using example_direct by blast
  have "Thome (\<lambda>f q0. Inr 100000) turbulent_Gnielinski 1 0.4 0.3 567 18.09 (156 / 10 ^ 6)
        (1 / 10 ^ 5) 0.086 0.2 2300 1400 900000 0.02 100000 22000000 None (Some 60)
      = Inr (h_ret k)"
    using k by (simp add: Thome_def)
  moreover have "Thome (\<lambda>f q0. Inr 100000) turbulent_Gnielinski 1 0.4 0.3 567 18.09
      (156 / 10 ^ 6) (1 / 10 ^ 5) 0.086 0.2 2300 1400 900000 0.02 100000 22000000 (Some 0) (Some 60)
     = Inl ZeroDivisionError"
    by (rule Thome_zero_heat_flux) simp_all
  ultimately show ?thesis by simp
qed

end
